theory Spec2Isabelle
  imports Main "HOL-Library.Word" "HOL-Library.Code_Target_Nat"
begin

unbundle bit_operations_syntax

section \<open>The format library: data model\<close>

text \<open>
  The development follows the C sources of the \<open>format\<close> library: the full tier
  (\<open>format.c\<close> with floating point support), the floating point unit \<open>format_fp.c\<close>
  with \<open>round_mantissa\<close> and \<open>do_conv_efg\<close>, the tiny tier (\<open>tinyformat.c\<close>) and the
  micro tier (\<open>microformat.c\<close>).

  The flag word of \<open>T_FormatSpec\<close> is a bit set over the constants \<open>FSPACE\<close> ... \<open>F_IS_SIGNED\<close>;
  it is modelled as a set of flags: \<open>flags |= F\<close> is \<open>insert F\<close>, \<open>flags &= ~F\<close> is
  removal, and \<open>flags & F\<close> is membership.
\<close>

datatype flag = FSPACE | FPLUS | FMINUS | FHASH | FZERO | FBANG | FCARET | F_IS_SIGNED

text \<open>
  \<open>size_t\<close> is 64 bits wide and \<open>int\<close> 32 bits (the LP64 platforms the library is tested
  on). A \<open>size_t\<close> is a natural number; \<open>szt\<close> is the conversion of an \<open>int\<close> to \<open>size_t\<close>
  that C performs when the two meet in a comparison or a subtraction.
\<close>

definition szt :: "int \<Rightarrow> nat" where
  "szt i = nat (i mod 2 ^ 64)"

record T_FormatSpec =
  nChars :: nat
  flags :: "flag set"
  width :: int
  prec :: int
  base :: nat
  qual :: char
  repchar :: char
  grouping :: string

section \<open>Arguments, the sink and the byte emitter\<close>

text \<open>
  The variadic argument list is a list of typed values; \<open>va_arg\<close> takes the head. Reading
  past the end of the list, or a value of another type, is undefined behaviour in C: every
  function that may do so returns an \<open>option\<close>, and \<open>None\<close> stands for undefined
  behaviour. \<open>VInt\<close> carries an \<open>int\<close> or \<open>unsigned int\<close>, \<open>VLong\<close> any of the 64-bit
  integer types, \<open>VDouble\<close> the bits of a \<open>double\<close>, \<open>VStr\<close> a \<open>char *\<close> (\<open>None\<close> is
  the null pointer) and \<open>VPtr\<close> the \<open>void *\<close> of \<open>%n\<close>.
\<close>

datatype varg = VInt "32 word" | VLong "64 word" | VDouble "64 word"
  | VStr "string option" | VPtr "nat option"

fun pop_int :: "varg list \<Rightarrow> (32 word \<times> varg list) option" where
  "pop_int (VInt w # ap) = Some (w, ap)"
| "pop_int _ = None"

fun pop_long :: "varg list \<Rightarrow> (64 word \<times> varg list) option" where
  "pop_long (VLong w # ap) = Some (w, ap)"
| "pop_long _ = None"

fun pop_double :: "varg list \<Rightarrow> (64 word \<times> varg list) option" where
  "pop_double (VDouble w # ap) = Some (w, ap)"
| "pop_double _ = None"

fun pop_str :: "varg list \<Rightarrow> (string option \<times> varg list) option" where
  "pop_str (VStr s # ap) = Some (s, ap)"
| "pop_str _ = None"

fun pop_ptr :: "varg list \<Rightarrow> (nat option \<times> varg list) option" where
  "pop_ptr (VPtr a # ap) = Some (a, ap)"
| "pop_ptr _ = None"

definition EXBADFORMAT :: int where
  "EXBADFORMAT = -1"

text \<open>
  \<open>i32\<close> is the conversion of an integer to the 32-bit \<open>int\<close> (two's complement, the
  value is reduced modulo \<open>2^32\<close>); \<open>u32\<close> is the conversion to \<open>unsigned int\<close>.
\<close>

definition i32 :: "int \<Rightarrow> int" where
  "i32 k = signed_take_bit 31 k"

definition u32 :: "nat \<Rightarrow> nat" where
  "u32 n = take_bit 32 n"

text \<open>
  A string in memory is the list of its bytes; a read at its end, or at a NUL byte,
  yields the terminator. \<open>rd\<close> is \<open>READ_CHAR\<close>, \<open>strlen'\<close> is \<open>STRLEN\<close>.
\<close>

definition NUL :: char where
  "NUL = CHR 0x00"

definition rd :: "string \<Rightarrow> char" where
  "rd p = (case p of [] \<Rightarrow> NUL | c # _ \<Rightarrow> c)"

definition strlen' :: "string \<Rightarrow> nat" where
  "strlen' s = length (takeWhile (\<lambda>c. c \<noteq> NUL) s)"

definition ISDIGIT :: "char \<Rightarrow> bool" where
  "ISDIGIT c = (48 \<le> (of_char c :: nat) \<and> (of_char c :: nat) \<le> 57)"

definition digit_val :: "char \<Rightarrow> nat" where
  "digit_val c = (of_char c :: nat) - 48"

text \<open>
  The consumer function \<open>cons\<close> takes the opaque pointer and a run of bytes and returns
  the new opaque pointer, \<open>None\<close> (the null pointer) on failure. The state of a call
  holds the opaque pointer \<open>*parg\<close>, the runs of bytes passed to \<open>cons\<close> so far, in order,
  and what \<open>%n\<close> has stored (address and value).
\<close>

record 'st io =
  sink_arg :: "'st option"
  sent :: "string list"
  stored :: "(nat \<times> int) list"

type_synonym 'st consumer = "'st option \<Rightarrow> string \<Rightarrow> 'st option"

text \<open>
  \<open>emit\<close> passes the \<open>n\<close> bytes at \<open>s\<close> to the consumer. A read of more bytes than the
  buffer holds is undefined.
\<close>

definition emit :: "string \<Rightarrow> nat \<Rightarrow> 'st consumer \<Rightarrow> 'st io \<Rightarrow> (int \<times> 'st io) option" where
  "emit s n cons io =
    (if length s < n then None
     else let a = cons (sink_arg io) (take n s);
              io' = io\<lparr>sink_arg := a, sent := sent io @ [take n s]\<rparr>
          in if a = None then Some (EXBADFORMAT, io') else Some (0, io'))"

definition PAD_STRING_LEN :: nat where
  "PAD_STRING_LEN = 16"

definition spaces :: string where
  "spaces = replicate 16 (CHR '' '')"

definition zeroes :: string where
  "zeroes = replicate 16 (CHR ''0'')"

function pad :: "string \<Rightarrow> nat \<Rightarrow> 'st consumer \<Rightarrow> 'st io \<Rightarrow> (int \<times> 'st io) option" where
  "pad s n cons io =
    (if n > 0
     then (let j = min PAD_STRING_LEN n in
           case emit s j cons io of
             None \<Rightarrow> None
           | Some (r, io') \<Rightarrow>
               if r < 0 then Some (EXBADFORMAT, io') else pad s (n - j) cons io')
     else Some (0, io))"
  by pat_completeness auto
termination
  by (relation "measure (\<lambda>(s, n, cons, io). n)") (auto simp: PAD_STRING_LEN_def)

declare pad.simps [simp del]

text \<open>
  \<open>on_ok r k\<close> is the C idiom \<open>if ( r < 0 ) return EXBADFORMAT;\<close> followed by \<open>k\<close>.
\<close>

definition on_ok :: "(int \<times> 'st io) option \<Rightarrow> ('st io \<Rightarrow> (int \<times> 'st io) option)
    \<Rightarrow> (int \<times> 'st io) option" where
  "on_ok r k = (case r of None \<Rightarrow> None
                | Some (x, io) \<Rightarrow> if x < 0 then Some (EXBADFORMAT, io) else k io)"

text \<open>
  \<open>gen_out\<close>: left spaces, prefix, zeros, body, right spaces. \<open>pfx_s\<close> is a pointer
  (\<open>None\<close> is \<open>NULL\<close>); the result is \<open>(int)n\<close>, where \<open>n\<close> has grown by each
  section that was emitted.
\<close>

definition gen_out :: "'st consumer \<Rightarrow> 'st io \<Rightarrow> nat \<Rightarrow> string option \<Rightarrow> nat \<Rightarrow> nat
    \<Rightarrow> string \<Rightarrow> nat \<Rightarrow> nat \<Rightarrow> (int \<times> 'st io) option" where
  "gen_out cons io ps1 pfx_s pfx_n pz e_s e_n ps2 =
    on_ok (if ps1 \<noteq> 0 then pad spaces ps1 cons io else Some (0, io)) (\<lambda>io1.
    on_ok (if pfx_s \<noteq> None \<and> pfx_n \<noteq> 0 then emit (the pfx_s) pfx_n cons io1
           else Some (0, io1)) (\<lambda>io2.
    on_ok (if pz \<noteq> 0 then pad zeroes pz cons io2 else Some (0, io2)) (\<lambda>io3.
    on_ok (if e_n \<noteq> 0 then emit e_s e_n cons io3 else Some (0, io3)) (\<lambda>io4.
    on_ok (if ps2 \<noteq> 0 then pad spaces ps2 cons io4 else Some (0, io4)) (\<lambda>io5.
    Some (i32 (int (ps1 + (if pfx_s \<noteq> None \<and> pfx_n \<noteq> 0 then pfx_n else 0)
                    + pz + e_n + ps2)), io5))))))"

section \<open>Padding calculator\<close>

text \<open>
  \<open>calc_space_padding\<close> of the full tier; the result is the pair \<open>(*ps1, *ps2)\<close>. All
  its variables are \<open>size_t\<close>: the field \<open>width\<close>, an \<open>int\<close>, is converted by \<open>szt\<close>, and
  the sum \<open>tot + !( flags & FMINUS )\<close> wraps at \<open>2^64\<close>.
\<close>

definition calc_space_padding :: "'a T_FormatSpec_scheme \<Rightarrow> nat \<Rightarrow> nat \<times> nat" where
  "calc_space_padding pspec length' =
    (let width' = (if length' < szt (width pspec) then szt (width pspec) - length' else 0);
         right = (if FMINUS \<in> flags pspec then width' else 0);
         left = (if FMINUS \<in> flags pspec then 0 else width')
     in if FCARET \<in> flags pspec
        then (let tot = left + right;
                  left' = ((tot + (if FMINUS \<in> flags pspec then 0 else 1)) mod 2 ^ 64) div 2
              in (left', tot - left'))
        else (left, right))"

text \<open>
  The earlier \<open>format.c\<close> has no \<open>calc_space_padding\<close>: \<open>do_conv_s\<close> works out the
  padding itself, from the \<open>unsigned int\<close> width, and centres with \<open>tot / 2\<close>.
  \<open>do_conv_s_padding\<close> is that part of its body, from \<open>if ( length < pspec->width )\<close>
  to the call of \<open>gen_out\<close>.
\<close>

definition do_conv_s_padding :: "flag set \<Rightarrow> nat \<Rightarrow> nat \<Rightarrow> nat \<times> nat" where
  "do_conv_s_padding fl width' length' =
    (let padWidth = (if length' < width' then width' - length' else 0);
         ps2 = (if FMINUS \<in> fl then padWidth else 0);
         ps1 = (if FMINUS \<in> fl then 0 else padWidth)
     in if FCARET \<in> fl
        then (let tot = ps1 + ps2 in (tot div 2, tot - tot div 2))
        else (ps1, ps2))"

section \<open>Character, string and count conversions\<close>

text \<open>\<open>DOUBLE_QUAL(q)\<close> sets the lowest bit of the qualifier letter.\<close>

definition DOUBLE_QUAL :: "char \<Rightarrow> char" where
  "DOUBLE_QUAL q = char_of ((of_char q :: nat) OR 1)"

definition MAXWIDTH :: int where "MAXWIDTH = 500"
definition MAXPREC :: int where "MAXPREC = 500"
definition MAXBASE :: nat where "MAXBASE = 36"

text \<open>
  \<open>do_conv_n\<close> stores the count of characters so far through the pointer argument, in
  the type the qualifier selects, and emits nothing.
\<close>

definition do_conv_n :: "'a T_FormatSpec_scheme \<Rightarrow> varg list \<Rightarrow> 'st io
    \<Rightarrow> (int \<times> varg list \<times> 'st io) option" where
  "do_conv_n pspec ap io =
    (case pop_ptr ap of
       None \<Rightarrow> None
     | Some (vp, ap') \<Rightarrow>
        (case vp of
           None \<Rightarrow> Some (0, ap', io)
         | Some a \<Rightarrow>
            let v = (if qual pspec = CHR ''h'' then signed_take_bit 15 (int (nChars pspec))
                     else if qual pspec = DOUBLE_QUAL (CHR ''h'')
                       then signed_take_bit 7 (int (nChars pspec))
                     else if qual pspec = CHR ''l'' \<or> qual pspec = CHR ''j''
                          \<or> qual pspec = CHR ''z'' \<or> qual pspec = CHR ''t''
                       then int (nChars pspec)
                     else i32 (int (nChars pspec)))
            in Some (0, ap', io\<lparr>stored := stored io @ [(a, v)]\<rparr>)))"

text \<open>
  \<open>do_conv_c\<close>: the character of \<open>%c\<close> is the argument cast to \<open>char\<close>, that of \<open>%C\<close>
  is \<open>repchar\<close>; it is emitted \<open>MAX(1, prec)\<close> times, one \<open>gen_out\<close> each.
\<close>

fun do_conv_c_loop :: "nat \<Rightarrow> char \<Rightarrow> int \<Rightarrow> 'st consumer \<Rightarrow> 'st io \<Rightarrow> (int \<times> 'st io) option" where
  "do_conv_c_loop 0 cc n cons io = Some (n, io)"
| "do_conv_c_loop (Suc rep) cc n cons io =
    (case gen_out cons io 0 None 0 0 [cc] 1 0 of
       None \<Rightarrow> None
     | Some (r, io') \<Rightarrow>
         if r = EXBADFORMAT then Some (EXBADFORMAT, io')
         else do_conv_c_loop rep cc (n + r) cons io')"

definition do_conv_c :: "'a T_FormatSpec_scheme \<Rightarrow> varg list \<Rightarrow> char \<Rightarrow> 'st consumer \<Rightarrow> 'st io
    \<Rightarrow> (int \<times> varg list \<times> 'st io) option" where
  "do_conv_c pspec ap code cons io =
    (case (if code = CHR ''c''
           then (case pop_int ap of None \<Rightarrow> None
                 | Some (w, ap') \<Rightarrow> Some (char_of (unat w), ap'))
           else Some (repchar pspec, ap)) of
       None \<Rightarrow> None
     | Some (cc, ap') \<Rightarrow>
        let prec' = (if prec pspec < 0 then 1 else prec pspec);
            rep = nat (max 1 prec')
        in (case do_conv_c_loop rep cc 0 cons io of
              None \<Rightarrow> None
            | Some (n, io') \<Rightarrow> Some (n, ap', io')))"

text \<open>
  \<open>do_conv_s\<close>: a null pointer is replaced by the string \<open>(null)\<close>; the length is
  \<open>MIN(prec, strlen(s))\<close> when the precision is not negative.
\<close>

definition do_conv_s :: "'a T_FormatSpec_scheme \<Rightarrow> varg list \<Rightarrow> char \<Rightarrow> 'st consumer \<Rightarrow> 'st io
    \<Rightarrow> (int \<times> varg list \<times> 'st io) option" where
  "do_conv_s pspec ap code cons io =
    (case pop_str ap of
       None \<Rightarrow> None
     | Some (sp, ap') \<Rightarrow>
        let s = (case sp of None \<Rightarrow> ''(null)'' | Some t \<Rightarrow> t);
            len0 = strlen' s;
            len = (if prec pspec \<ge> 0 then (if szt (prec pspec) < len0 then szt (prec pspec) else len0)
                   else len0);
            (ps1, ps2) = calc_space_padding pspec len
        in (case gen_out cons io ps1 None 0 0 s len ps2 of
              None \<Rightarrow> None
            | Some (n, io') \<Rightarrow> Some (n, ap', io')))"

section \<open>Integer converter\<close>

text \<open>
  The arguments of one call of \<open>gen_out\<close>. The converters first work out what to emit
  and then call \<open>gen_out\<close>; the record keeps the two steps apart.
\<close>

record gen_args =
  a_ps1 :: nat
  a_pfx_s :: "string option"
  a_pfx_n :: nat
  a_pz :: nat
  a_e_s :: string
  a_e_n :: nat
  a_ps2 :: nat

definition gen_out_args :: "'st consumer \<Rightarrow> 'st io \<Rightarrow> gen_args \<Rightarrow> (int \<times> 'st io) option" where
  "gen_out_args cons io g =
     gen_out cons io (a_ps1 g) (a_pfx_s g) (a_pfx_n g) (a_pz g) (a_e_s g) (a_e_n g) (a_ps2 g)"

definition digits_tab :: string where
  "digits_tab = ''0123456789ABCDEFGHIJKLMNOPQRSTUVWXYZ''"

text \<open>\<open>cc |= 0x20\<close>: a letter becomes lower case, a digit is unchanged.\<close>

definition or20 :: "char \<Rightarrow> char" where
  "or20 c = char_of ((of_char c :: nat) OR 32)"

text \<open>
  The three digit loops of \<open>do_conv_numeric\<close>. Each writes the digits of \<open>uv\<close> into
  \<open>numBuffer\<close> from its end towards its start; \<open>buf\<close> is the part of the buffer written
  so far, so a new digit goes in front. \<open>numWidth\<close> is the length of \<open>buf\<close>.
\<close>

function conv_dec :: "nat \<Rightarrow> string \<Rightarrow> string" where
  "conv_dec uv buf =
     (if uv \<noteq> 0 then conv_dec (uv div 10) (char_of (48 + uv mod 10) # buf) else buf)"
  by pat_completeness auto
termination
  by (relation "measure fst") auto

declare conv_dec.simps [simp del]

function conv_pow2 :: "nat \<Rightarrow> bool \<Rightarrow> nat \<Rightarrow> string \<Rightarrow> string" where
  "conv_pow2 base' lower uv buf =
     (if uv \<noteq> 0
      then (let mask = base' - 1;
                shift = (if base' = 16 then 4 else if base' = 8 then 3 else 1);
                cc = digits_tab ! (uv AND mask);
                cc' = (if lower then or20 cc else cc)
            in conv_pow2 base' lower (drop_bit shift uv) (cc' # buf))
      else buf)"
  by pat_completeness auto
termination
  by (relation "measure (\<lambda>(b, l, uv, buf). uv)") (auto simp: drop_bit_eq_div)

declare conv_pow2.simps [simp del]

function conv_base :: "nat \<Rightarrow> bool \<Rightarrow> nat \<Rightarrow> string \<Rightarrow> string" where
  "conv_base base' lower uv buf =
     (if uv \<noteq> 0 \<and> 1 < base'
      then (let cc = digits_tab ! (uv mod base');
                cc' = (if lower then or20 cc else cc)
            in conv_base base' lower (uv div base') (cc' # buf))
      else buf)"
  by pat_completeness auto
termination
  by (relation "measure (\<lambda>(b, l, uv, buf). uv)") auto

declare conv_base.simps [simp del]

text \<open>
  The value of the argument. For a signed conversion it is read as \<open>long\<close>, \<open>intmax_t\<close>,
  \<open>size_t\<close> or \<open>ptrdiff_t\<close> (all 64 bits) or as \<open>int\<close>, and narrowed for \<open>h\<close> and \<open>hh\<close>.
\<close>

definition is_long_qual :: "char \<Rightarrow> bool" where
  "is_long_qual q = (q = CHR ''l'' \<or> q = CHR ''j'' \<or> q = CHR ''z'' \<or> q = CHR ''t'')"

definition get_signed :: "char \<Rightarrow> varg list \<Rightarrow> (int \<times> varg list) option" where
  "get_signed q ap =
    (case (if is_long_qual q
           then (case pop_long ap of None \<Rightarrow> None | Some (w, r) \<Rightarrow> Some (sint w, r))
           else (case pop_int ap of None \<Rightarrow> None | Some (w, r) \<Rightarrow> Some (sint w, r))) of
       None \<Rightarrow> None
     | Some (v, r) \<Rightarrow>
        let v1 = (if q = CHR ''h'' then signed_take_bit 15 v else v);
            v2 = (if q = DOUBLE_QUAL (CHR ''h'') then signed_take_bit 7 v1 else v1)
        in Some (v2, r))"

definition get_unsigned :: "char \<Rightarrow> varg list \<Rightarrow> (nat \<times> varg list) option" where
  "get_unsigned q ap =
    (case (if is_long_qual q
           then (case pop_long ap of None \<Rightarrow> None | Some (w, r) \<Rightarrow> Some (unat w, r))
           else (case pop_int ap of None \<Rightarrow> None | Some (w, r) \<Rightarrow> Some (unat w, r))) of
       None \<Rightarrow> None
     | Some (v, r) \<Rightarrow>
        let v1 = (if q = CHR ''h'' then take_bit 16 v else v);
            v2 = (if q = DOUBLE_QUAL (CHR ''h'') then take_bit 8 v1 else v1)
        in Some (v2, r))"

text \<open>
  Grouping. The specification is read from its last character towards its first, so the
  model holds it reversed: \<open>r\<close> is what is left to read, its head is \<open>READ_CHAR(mode, ptr)\<close>
  and its length is \<open>glen\<close>. \<open>grp_width\<close> is the \<open>for\<close> loop that reads a width written in
  digits; \<open>wid\<close> is an \<open>int\<close> and \<open>decade\<close> an \<open>unsigned int\<close>, both 32-bit words.
\<close>

fun grp_width :: "string \<Rightarrow> 32 word \<Rightarrow> 32 word \<Rightarrow> 32 word \<times> string" where
  "grp_width [] wid decade = (wid, [])"
| "grp_width (g # r) wid decade =
     (if g \<noteq> NUL \<and> ISDIGIT g
      then grp_width r (wid + decade * of_nat (digit_val g)) (decade * 10)
      else (wid, g # r))"

text \<open>
  \<open>grp_next\<close> is the body of \<open>if ( glen )\<close>: \<open>Inl\<close> is a \<open>break\<close>, \<open>Inr\<close> carries the
  width, the separator and the rest of the specification.
\<close>

definition grp_next :: "string \<Rightarrow> varg list
    \<Rightarrow> (varg list + (32 word \<times> char \<times> string \<times> varg list)) option" where
  "grp_next r ap =
    (let grp = rd r in
     if grp = CHR ''-'' then Some (Inl ap)
     else
      (case (if grp = CHR ''*''
             then (case pop_int ap of
                     None \<Rightarrow> None
                   | Some (w, ap') \<Rightarrow>
                       if sint w < 0 then Some (Inl ap') else Some (Inr (w, tl r, ap')))
             else (let (wid, r') = grp_width r 0 1 in Some (Inr (wid, r', ap)))) of
         None \<Rightarrow> None
       | Some (Inl ap') \<Rightarrow> Some (Inl ap')
       | Some (Inr (wid, r', ap')) \<Rightarrow>
           if r' = [] then Some (Inl ap')
           else Some (Inr (wid, rd r', tl r', ap'))))"

function grp_loop :: "string \<Rightarrow> 32 word \<Rightarrow> char \<Rightarrow> nat \<Rightarrow> string \<Rightarrow> nat \<Rightarrow> varg list
    \<Rightarrow> (string \<times> nat \<times> varg list) option" where
  "grp_loop r wid grp d_rem buf ins ap =
    (if d_rem = 0 then Some (buf, ins, ap)
     else
      (case (if r \<noteq> [] then grp_next r ap else Some (Inr (wid, grp, r, ap))) of
         None \<Rightarrow> None
       | Some (Inl ap') \<Rightarrow> Some (buf, ins, ap')
       | Some (Inr (wid', grp', r', ap')) \<Rightarrow>
           if wid' \<noteq> 0
           then (if d_rem \<le> szt (sint wid') then Some (buf, ins, ap')
                 else grp_loop r' wid' grp' (d_rem - szt (sint wid'))
                        (take (d_rem - szt (sint wid')) buf @ [grp']
                           @ drop (d_rem - szt (sint wid')) buf)
                        (ins + 1) ap')
           else if r' = [] then Some (buf, ins, ap')
           else grp_loop r' wid' grp' d_rem buf ins ap'))"
  by pat_completeness auto

lemma grp_width_length: "grp_width r wid dec = (w, r') \<Longrightarrow> length r' \<le> length r"
  by (induction r wid dec rule: grp_width.induct) (auto split: if_splits)

lemma grp_next_shorter:
  "grp_next r ap = Some (Inr (w, g, r', ap')) \<Longrightarrow> length r' < length r \<and> length ap' \<le> length ap"
  by (cases r; cases ap rule: pop_int.cases)
     (auto simp: grp_next_def rd_def Let_def split: if_splits option.splits prod.splits sum.splits list.splits dest!: grp_width_length)

lemma szt_sint_pos: "(w :: 32 word) \<noteq> 0 \<Longrightarrow> 0 < szt (sint w)"
proof -
  assume "w \<noteq> 0"
  then have nz: "sint w \<noteq> 0" by (simp add: signed_eq_0_iff)
  have bnd: "- (2 ^ 31) \<le> sint w" "sint w < 2 ^ 31"
    using sint_ge [of w] sint_lt [of w] by simp_all
  have "\<not> (2 ^ 64 :: int) dvd sint w"
  proof
    assume "(2 ^ 64 :: int) dvd sint w"
    from dvd_imp_le_int [OF nz this] have "(2 ^ 64 :: int) \<le> \<bar>sint w\<bar>" by simp
    with bnd show False by simp
  qed
  then have "sint w mod 2 ^ 64 \<noteq> 0" by (simp add: dvd_eq_mod_eq_0)
  moreover have "0 \<le> sint w mod 2 ^ 64" by simp
  ultimately show ?thesis
    by (simp add: szt_def)
qed

termination grp_loop
  apply (relation "measure (\<lambda>(r, wid, grp, d_rem, buf, ins, ap). d_rem + length r)")
    apply simp
   apply (auto split: if_splits dest!: grp_next_shorter simp: szt_sint_pos)
  done

declare grp_loop.simps [simp del]


text \<open>
  \<open>do_conv_numeric\<close> in the order of its source. \<open>numeric_value\<close> reads the argument and
  yields the value \<open>uv\<close>, \<open>prefix[0]\<close>, \<open>pfxWidth\<close> and the flags (a sign sets \<open>FHASH\<close>).
  The absolute value of \<open>LONG_MIN\<close> is \<open>2^63\<close>, as on the two's complement machines the
  library runs on.
\<close>

definition numeric_value :: "'a T_FormatSpec_scheme \<Rightarrow> varg list
    \<Rightarrow> (nat \<times> char \<times> nat \<times> flag set \<times> varg list) option" where
  "numeric_value pspec ap =
    (if F_IS_SIGNED \<in> flags pspec
     then (case get_signed (qual pspec) ap of
             None \<Rightarrow> None
           | Some (v, ap1) \<Rightarrow>
               let p0 = (if v < 0 then CHR ''-''
                         else if FPLUS \<in> flags pspec then CHR ''+''
                         else if FSPACE \<in> flags pspec then CHR '' ''
                         else NUL)
               in Some (nat \<bar>v\<bar>, p0, if p0 \<noteq> NUL then 1 else 0,
                        if p0 \<noteq> NUL then insert FHASH (flags pspec) else flags pspec,
                        ap1))
     else (case get_unsigned (qual pspec) ap of
             None \<Rightarrow> None
           | Some (uv, ap1) \<Rightarrow> Some (uv, CHR ''0'', 0, flags pspec, ap1)))"

text \<open>
  \<open>numeric_prefix\<close> is the alternate-form prefix: the pointer \<open>pfx_s\<close> and the length
  \<open>pfx_n\<close>, both set only under \<open>FHASH\<close>. \<open>prefix[1]\<close> is read only after it was written.
\<close>

definition numeric_prefix :: "char \<Rightarrow> nat \<Rightarrow> char \<Rightarrow> nat \<Rightarrow> flag set \<Rightarrow> string option \<times> nat" where
  "numeric_prefix code uv p0 pw0 fl1 =
    (let pw1 = (if code = CHR ''o'' \<and> uv \<noteq> 0 then 1 else pw0);
         hexbin = (code = CHR ''x'' \<or> code = CHR ''X'' \<or> code = CHR ''b'');
         pw2 = (if hexbin \<and> (FBANG \<in> fl1 \<or> uv \<noteq> 0) then 2 else pw1);
         p1 = (if hexbin \<and> (FBANG \<in> fl1 \<or> uv \<noteq> 0)
               then (if FBANG \<in> fl1 then or20 code else code) else NUL)
     in if FHASH \<in> fl1 then (Some [p0, p1], pw2) else (None, 0))"

text \<open>
  \<open>numeric_digits\<close> chooses the digit loop. The loop for other bases divides by \<open>base\<close>
  and indexes a table of 36 digits: \<open>do_conv\<close> and the parser keep the base between
  2 and 36.
\<close>

definition numeric_digits :: "char \<Rightarrow> nat \<Rightarrow> nat \<Rightarrow> string" where
  "numeric_digits code base' uv =
    (if base' = 10 then conv_dec uv []
     else if base' = 2 \<or> base' = 8 \<or> base' = 16
       then conv_pow2 base' (code = CHR ''x'' \<or> code = CHR ''i'' \<or> code = CHR ''u'') uv []
     else conv_base base' (code = CHR ''i'' \<or> code = CHR ''u'') uv [])"

definition numeric_group :: "'a T_FormatSpec_scheme \<Rightarrow> string \<Rightarrow> varg list
    \<Rightarrow> (string \<times> nat \<times> varg list) option" where
  "numeric_group pspec buf0 ap =
    (if grouping pspec \<noteq> []
     then grp_loop (rev (grouping pspec)) 0 NUL (length buf0) buf0 0 ap
     else Some (buf0, 0, ap))"

text \<open>
  \<open>numeric_args\<close> applies the precision and the padding and yields the arguments of
  \<open>gen_out\<close>: \<open>buf\<close> is the digit string with its separators, \<open>digitWidth\<close> its length.
\<close>

definition numeric_args :: "'a T_FormatSpec_scheme \<Rightarrow> flag set \<Rightarrow> string option \<times> nat \<Rightarrow> string
    \<Rightarrow> nat \<Rightarrow> gen_args" where
  "numeric_args pspec fl1 pfx buf grp_insertions =
    (let digitWidth = length buf;
         prec' = (if prec pspec < 0 then 1 else prec pspec);
         fl2 = (if prec pspec < 0 then fl1 else fl1 - {FZERO});
         numWidth = max digitWidth (szt prec' + grp_insertions);
         length1 = snd pfx + numWidth;
         (ps1, ps2) = calc_space_padding (pspec\<lparr>flags := fl2, prec := prec'\<rparr>) length1;
         pz = numWidth - digitWidth
     in \<lparr>a_ps1 = (if FZERO \<in> fl2 then 0 else ps1),
         a_pfx_s = fst pfx, a_pfx_n = snd pfx,
         a_pz = (if FZERO \<in> fl2 then pz + ps1 else pz),
         a_e_s = buf, a_e_n = digitWidth, a_ps2 = ps2\<rparr>)"

text \<open>\<open>numeric_layout\<close> is \<open>do_conv_numeric\<close> up to its call of \<open>gen_out\<close>.\<close>

definition numeric_layout :: "'a T_FormatSpec_scheme \<Rightarrow> varg list \<Rightarrow> char \<Rightarrow> nat
    \<Rightarrow> (gen_args \<times> varg list) option" where
  "numeric_layout pspec ap code base' =
    (if base' < 2 \<or> 36 < base' then None else
     case numeric_value pspec ap of
       None \<Rightarrow> None
     | Some (uv, p0, pw0, fl1, ap1) \<Rightarrow>
        (case numeric_group pspec (numeric_digits code base' uv) ap1 of
           None \<Rightarrow> None
         | Some (buf, grp_insertions, ap2) \<Rightarrow>
             Some (numeric_args pspec fl1 (numeric_prefix code uv p0 pw0 fl1) buf grp_insertions,
                   ap2)))"

definition do_conv_numeric :: "'a T_FormatSpec_scheme \<Rightarrow> varg list \<Rightarrow> char \<Rightarrow> 'st consumer
    \<Rightarrow> 'st io \<Rightarrow> nat \<Rightarrow> (int \<times> varg list \<times> 'st io) option" where
  "do_conv_numeric pspec ap code cons io base' =
    (case numeric_layout pspec ap code base' of
       None \<Rightarrow> None
     | Some (g, ap') \<Rightarrow>
        (case gen_out_args cons io g of
           None \<Rightarrow> None
         | Some (n, io') \<Rightarrow> Some (n, ap', io')))"


section \<open>Floating point converters of the full tier\<close>

text \<open>
  A \<open>double\<close> is the 64-bit word of its IEEE-754 representation (\<open>DBL_DIG > 8\<close>):
  \<open>DEC_SIG_FIG = 16\<close>, \<open>DEC_1P0 = 10^15\<close>. The decimal mantissa is an
  \<open>unsigned long long\<close>; it stays below \<open>2 * 10^16\<close>, so it is a natural number here.
\<close>

definition DEC_1P0 :: nat where "DEC_1P0 = 1000000000000000"
definition DEC_SIG_FIG :: int where "DEC_SIG_FIG = 16"
definition INT_MAX :: int where "INT_MAX = 2147483647"

lemma word_reverse_shl1:
  "word_reverse (push_bit 1 (w :: 64 word)) = drop_bit 1 (word_reverse w)"
proof (rule bit_word_eqI)
  fix n assume n: "n < LENGTH(64)"
  show "bit (word_reverse (push_bit 1 w)) n = bit (drop_bit 1 (word_reverse w)) n"
  proof (cases "n = 63")
    case True
    have "bit (word_reverse (push_bit 1 w)) 63 = False"
      by (simp add: bit_word_reverse_iff bit_push_bit_iff bit_0)
    moreover have "bit (drop_bit 1 (word_reverse w)) 63 = False"
      by (simp add: bit_drop_bit_eq bit_word_reverse_iff)
    ultimately show ?thesis using True by simp
  next
    case False
    with n have n': "n < 63" by simp
    have pb: "bit (push_bit 1 w) k = (1 \<le> k \<and> k < 64 \<and> bit w (k - 1))" for k
      by (simp only: bit_push_bit_iff possible_bit_word) simp
    have "bit (word_reverse (push_bit 1 w)) n = (1 \<le> 63 - n \<and> 63 - n < 64 \<and> bit w (63 - n - 1))"
      using n' by (simp only: bit_word_reverse_iff pb) simp
    moreover from n' have "1 \<le> 63 - n" "63 - n < 64" "63 - n - 1 = 62 - n"
      by arith+
    ultimately have l: "bit (word_reverse (push_bit 1 w)) n = bit w (62 - n)"
      by (simp only: simp_thms)
    have r: "bit (drop_bit 1 (word_reverse w)) n = bit w (62 - n)"
      using n' by (simp add: bit_drop_bit_eq bit_word_reverse_iff)
    from l r show ?thesis by simp
  qed
qed

lemma word_reverse_eq_0_iff: "word_reverse (w :: 64 word) = 0 \<longleftrightarrow> w = 0"
proof
  assume "word_reverse w = 0"
  then have "word_reverse (word_reverse w) = word_reverse 0" by simp
  moreover have "word_reverse (0 :: 64 word) = 0"
    by (rule bit_word_eqI) (simp add: bit_word_reverse_iff)
  ultimately show "w = 0" by simp
next
  assume "w = 0"
  then show "word_reverse w = 0"
    by (simp add: bit_word_reverse_iff bit_eq_iff)
qed

lemma shl1_measure:
  assumes "(bm :: 64 word) \<noteq> 0"
  shows "unat (word_reverse (push_bit 1 bm)) < unat (word_reverse bm)"
proof -
  from assms have "word_reverse bm \<noteq> 0" by (simp add: word_reverse_eq_0_iff)
  then have "0 < unat (word_reverse bm)" by (simp add: unat_gt_0)
  then have "unat (word_reverse bm) div 2 < unat (word_reverse bm)" by simp
  moreover have "unat (drop_bit 1 (word_reverse bm)) = unat (word_reverse bm) div 2"
    by (simp add: unat_drop_bit_eq drop_bit_eq_div unat_div)
  ultimately show ?thesis
    by (simp only: word_reverse_shl1)
qed

text \<open>
  STEP 1 of \<open>radix_convert\<close>: the binary mantissa, left-aligned in its register, is
  shifted out bit by bit until the register is empty.
\<close>

function radix_step1 :: "64 word \<Rightarrow> nat \<Rightarrow> nat \<Rightarrow> nat" where
  "radix_step1 bm dm inc =
     (if bm \<noteq> 0
      then radix_step1 (push_bit 1 bm) (if bit bm 63 then dm + inc else dm) ((inc + 1) div 2)
      else dm)"
  by pat_completeness auto
termination
proof (relation "measure (\<lambda>(bm, dm, inc). unat (word_reverse bm))")
  show "wf (measure (\<lambda>(bm, dm, inc). unat (word_reverse bm)))" by simp
next
  fix bm :: "64 word" and dm inc :: nat
  assume "bm \<noteq> 0"
  then have "unat (word_reverse (push_bit 1 bm)) < unat (word_reverse bm)"
    by (rule shl1_measure)
  then show "((push_bit 1 bm, if bit bm 63 then dm + inc else dm, (inc + 1) div 2), bm, dm, inc)
      \<in> measure (\<lambda>(bm, dm, inc). unat (word_reverse bm))"
    by (simp only: in_measure prod.case)
qed

declare radix_step1.simps [simp del]

text \<open>STEP 2: one function for each sign of the binary exponent.\<close>

fun radix_up :: "nat \<Rightarrow> nat \<Rightarrow> int \<Rightarrow> nat \<times> int" where
  "radix_up 0 m e = (m, e)"
| "radix_up (Suc k) m e =
     (if m * 2 \<ge> DEC_1P0 * 10 then radix_up k ((m * 2 + 5) div 10) (e + 1)
      else radix_up k (m * 2) e)"

fun radix_down :: "nat \<Rightarrow> nat \<Rightarrow> int \<Rightarrow> nat \<times> int" where
  "radix_down 0 m e = (m, e)"
| "radix_down (Suc k) m e =
     (if m < DEC_1P0 * 2 then radix_down k ((m * 10 + 1) div 2) (e - 1)
      else radix_down k ((m + 1) div 2) e)"

text \<open>The result of \<open>radix_convert\<close> is \<open>(sign, mantissa, exponent)\<close>.\<close>

definition radix_convert :: "64 word \<Rightarrow> nat \<times> nat \<times> int" where
  "radix_convert bits =
    (let bin_mantissa = bits AND mask 52;
         bin_exponent = uint (drop_bit 52 bits AND mask 11);
         bin_sign = unat (drop_bit 63 bits AND mask 1)
     in if bin_exponent = 2047 then (bin_sign, unat bin_mantissa, INT_MAX)
        else if bin_mantissa = 0 \<and> bin_exponent = 0 then (bin_sign, 0, 0)
        else
          (let m1 = radix_step1 (push_bit 12 bin_mantissa) DEC_1P0 ((DEC_1P0 + 1) div 2);
               e = bin_exponent - 1023;
               (m2, e2) = (if e > 0 then radix_up (nat e) m1 0
                           else radix_down (nat (- e)) m1 0)
           in (bin_sign, m2, e2)))"

definition DEC_FP_IS_NAN :: "nat \<Rightarrow> nat \<Rightarrow> int \<Rightarrow> bool" where
  "DEC_FP_IS_NAN s m e = (e = INT_MAX \<and> m \<noteq> 0)"

definition DEC_FP_IS_INF :: "nat \<Rightarrow> nat \<Rightarrow> int \<Rightarrow> bool" where
  "DEC_FP_IS_INF s m e = (e = INT_MAX \<and> m = 0)"

text \<open>
  \<open>mant_to_char\<close> of the full tier drops \<open>digits_total - digits_to_convert\<close> digits
  (rounding at the last one if asked) and writes \<open>digits_to_convert\<close> digits into
  \<open>buf\<close>, which is \<open>e_s[DEC_SIG_FIG]\<close>. Its second loop runs while \<open>i\<close> is not zero, so a
  negative count is undefined, and so is a count above the size of the buffer.
\<close>

fun mant_drop :: "nat \<Rightarrow> bool \<Rightarrow> nat \<Rightarrow> nat" where
  "mant_drop 0 want_round m = m"
| "mant_drop (Suc i) want_round m =
     mant_drop i want_round (if Suc i = 1 \<and> want_round then (m + 5) div 10 else m div 10)"

fun mant_digits :: "nat \<Rightarrow> nat \<Rightarrow> string \<Rightarrow> string" where
  "mant_digits 0 m buf = buf"
| "mant_digits (Suc i) m buf = mant_digits i (m div 10) (char_of (48 + m mod 10) # buf)"

definition mant_to_char :: "nat \<Rightarrow> int \<Rightarrow> int \<Rightarrow> bool \<Rightarrow> string option" where
  "mant_to_char m digits_total digits_to_convert want_round =
    (if digits_to_convert < 0 \<or> DEC_SIG_FIG < digits_to_convert then None
     else Some (mant_digits (nat digits_to_convert)
                  (mant_drop (nat (digits_total - digits_to_convert)) want_round m) []))"

text \<open>The sign prefix shared by the floating point converters.\<close>

definition fp_prefix :: "nat \<Rightarrow> flag set \<Rightarrow> string" where
  "fp_prefix sign fl =
    (if sign \<noteq> 0 then ''-''
     else if FPLUS \<in> fl then ''+''
     else if FSPACE \<in> fl then '' ''
     else [])"

definition is_lower_fp :: "char \<Rightarrow> bool" where
  "is_lower_fp code = (code = CHR ''f'' \<or> code = CHR ''e'' \<or> code = CHR ''g'')"

definition do_conv_infnan :: "'a T_FormatSpec_scheme \<Rightarrow> char \<Rightarrow> 'st consumer \<Rightarrow> 'st io
    \<Rightarrow> nat \<Rightarrow> nat \<Rightarrow> int \<Rightarrow> (int \<times> 'st io) option" where
  "do_conv_infnan pspec code cons io sign mantissa exponent =
    (let e_s = (if DEC_FP_IS_NAN sign mantissa exponent
                then (if is_lower_fp code then ''nan'' else ''NAN'')
                else (if is_lower_fp code then ''inf'' else ''INF''));
         e_n = strlen' e_s;
         pfx_s = fp_prefix sign (flags pspec);
         pfx_n = strlen' pfx_s;
         (ps1, ps2) = calc_space_padding pspec (e_n + pfx_n)
     in gen_out cons io ps1 (Some pfx_s) pfx_n 0 e_s e_n ps2)"

text \<open>
  The loop that strips trailing zeros from the mantissa and counts the significant
  figures; the result is \<open>(sigfig, mantissa)\<close>.
\<close>

fun trim_zeros :: "nat \<Rightarrow> nat \<Rightarrow> nat \<times> nat" where
  "trim_zeros 0 m = (0, m)"
| "trim_zeros (Suc k) m = (if m mod 10 \<noteq> 0 then (Suc k, m) else trim_zeros k (m div 10))"

definition sig_figs :: "nat \<Rightarrow> int \<times> nat" where
  "sig_figs mantissa =
    (if mantissa \<noteq> 0
     then (let (k, m) = trim_zeros (nat DEC_SIG_FIG) mantissa in (int k, m))
     else (0, mantissa))"

text \<open>The number of decimal digits of \<open>i\<close>: \<open>for ( ; i > 0; n++, i /= 10 )\<close>.\<close>

function count_digits :: "nat \<Rightarrow> nat \<Rightarrow> nat" where
  "count_digits i n = (if i > 0 then count_digits (i div 10) (n + 1) else n)"
  by pat_completeness auto
termination
  by (relation "measure fst") auto

declare count_digits.simps [simp del]

text \<open>
  The converters call \<open>gen_out\<close> several times in a row: each result \<open>n\<close> is compared
  with \<open>EXBADFORMAT\<close>, returned if equal and added to \<open>count\<close> otherwise.
\<close>

fun gen_out_seq :: "'st consumer \<Rightarrow> gen_args list \<Rightarrow> int \<Rightarrow> 'st io \<Rightarrow> (int \<times> 'st io) option" where
  "gen_out_seq cons [] count io = Some (count, io)"
| "gen_out_seq cons (g # gs) count io =
    (case gen_out_args cons io g of
       None \<Rightarrow> None
     | Some (n, io') \<Rightarrow>
         if n = EXBADFORMAT then Some (n, io')
         else gen_out_seq cons gs (i32 (count + n)) io')"

text \<open>
  \<open>do_conv_e\<close> of the full tier. \<open>e_layout\<close> works out the arguments of its four calls
  of \<open>gen_out\<close> (left part, decimal point and right part, trailing zeros, exponent);
  the counts \<open>n_left\<close>, \<open>n_right\<close> and the precision are not negative where they are
  converted to \<open>size_t\<close>.
\<close>

definition fp_prec :: "'a T_FormatSpec_scheme \<Rightarrow> char \<Rightarrow> int" where
  "fp_prec pspec code =
    (let p = (if prec pspec < 0 then 6 else prec pspec)
     in if (code = CHR ''g'' \<or> code = CHR ''G'') \<and> p = 0 then 1 else p)"

definition exp_digits :: "nat \<Rightarrow> nat \<Rightarrow> string" where
  "exp_digits len_exp absexp = mant_digits len_exp absexp []"

definition e_layout :: "'a T_FormatSpec_scheme \<Rightarrow> char \<Rightarrow> nat \<Rightarrow> nat \<Rightarrow> int
    \<Rightarrow> gen_args list option" where
  "e_layout pspec code sign mantissa0 exponent =
    (let prec' = fp_prec pspec code;
         is_g = (code = CHR ''g'' \<or> code = CHR ''G'');
         pfx_s = fp_prefix sign (flags pspec);
         pfx_n = strlen' pfx_s;
         (sigfig, mantissa) = sig_figs mantissa0;
         n_left = 1;
         n_right = min (max (sigfig - 1) 0) prec';
         len_exp = max (count_digits (nat \<bar>exponent\<bar>) 0) 2;
         pz2 = (if prec' > n_right \<and> \<not> (is_g \<and> FHASH \<notin> flags pspec)
                then nat (prec' - n_right) else 0);
         want_dp = (pz2 \<noteq> 0 \<or> n_right > 0 \<or> FHASH \<in> flags pspec);
         length' = pfx_n + nat n_left + nat n_right + 1 + 1 + len_exp + pz2
                   + (if want_dp then 1 else 0);
         (ps1, ps2) = calc_space_padding pspec length';
         pz1 = (if FZERO \<in> flags pspec then ps1 else 0);
         ps1' = (if FZERO \<in> flags pspec then 0 else ps1)
     in case mant_to_char mantissa sigfig n_left False of
          None \<Rightarrow> None
        | Some e_left \<Rightarrow>
           (case (if n_right \<noteq> 0
                  then mant_to_char mantissa (sigfig - int (length e_left)) n_right True
                  else Some e_left) of
              None \<Rightarrow> None
            | Some e_right \<Rightarrow>
               Some [\<lparr>a_ps1 = ps1', a_pfx_s = Some pfx_s, a_pfx_n = pfx_n, a_pz = pz1,
                       a_e_s = e_left, a_e_n = length e_left, a_ps2 = 0\<rparr>,
                     \<lparr>a_ps1 = 0, a_pfx_s = (if want_dp then Some ''.'' else None),
                       a_pfx_n = (if want_dp then 1 else 0), a_pz = 0,
                       a_e_s = e_right, a_e_n = (if n_right \<noteq> 0 then length e_right else 0),
                       a_ps2 = 0\<rparr>,
                     \<lparr>a_ps1 = 0, a_pfx_s = None, a_pfx_n = 0, a_pz = pz2,
                       a_e_s = [], a_e_n = 0, a_ps2 = 0\<rparr>,
                     \<lparr>a_ps1 = 0,
                       a_pfx_s = Some [if code = CHR ''e'' \<or> code = CHR ''g'' then CHR ''e''
                                       else CHR ''E'',
                                       if exponent < 0 then CHR ''-'' else CHR ''+''],
                       a_pfx_n = 2, a_pz = 0,
                       a_e_s = exp_digits len_exp (nat \<bar>exponent\<bar>), a_e_n = len_exp,
                       a_ps2 = ps2\<rparr>]))"

definition do_conv_e :: "'a T_FormatSpec_scheme \<Rightarrow> char \<Rightarrow> 'st consumer \<Rightarrow> 'st io
    \<Rightarrow> nat \<Rightarrow> nat \<Rightarrow> int \<Rightarrow> (int \<times> 'st io) option" where
  "do_conv_e pspec code cons io sign mantissa exponent =
    (case e_layout pspec code sign mantissa exponent of
       None \<Rightarrow> None
     | Some gs \<Rightarrow> gen_out_seq cons gs 0 io)"

text \<open>
  \<open>do_conv_f\<close> of the full tier. For \<open>g\<close> and \<open>G\<close> the two loops \<open>g_strip\<close> and \<open>g_trim\<close>
  strip the digits beyond \<open>n_left + n_right\<close> and then the trailing zeros. The last two
  calls of \<open>gen_out\<close> both carry \<open>ps2\<close> when \<open>pz4\<close> is zero.
\<close>

fun g_strip :: "nat \<Rightarrow> nat \<Rightarrow> nat" where
  "g_strip 0 m = m"
| "g_strip (Suc k) m = g_strip k (m div 10)"

function g_trim :: "int \<Rightarrow> nat \<Rightarrow> int" where
  "g_trim n_right m = (if n_right > 0 \<and> m mod 10 = 0 then g_trim (n_right - 1) (m div 10)
                       else n_right)"
  by pat_completeness auto
termination
  by (relation "measure (\<lambda>(n, m). nat n)") auto

declare g_trim.simps [simp del]

definition f_layout :: "'a T_FormatSpec_scheme \<Rightarrow> char \<Rightarrow> nat \<Rightarrow> nat \<Rightarrow> int
    \<Rightarrow> gen_args list option" where
  "f_layout pspec code sign mantissa0 exponent =
    (let prec' = fp_prec pspec code;
         is_g = (code = CHR ''g'' \<or> code = CHR ''G'');
         pfx_s = fp_prefix sign (flags pspec);
         pfx_n = strlen' pfx_s;
         (sigfig, mantissa) = sig_figs mantissa0;
         n_left = (if exponent > -1 then 1 + exponent else 0);
         n_right0 = min (max (sigfig - 1 - exponent) 0) prec';
         n_right1 = (if is_g
                     then g_trim n_right0 (g_strip (nat (sigfig - (n_left + n_right0))) mantissa)
                     else n_right0);
         pz1 = (if n_left = 0 then 1 else 0);
         pz2 = (if n_left > sigfig then n_left - sigfig else 0);
         pz3 = (if exponent < -1 \<and> prec' > 0 then min (szt (-1 - exponent)) (szt prec') else 0);
         pz4 = (if pz3 + szt n_right1 < szt prec' \<and> \<not> (is_g \<and> FHASH \<notin> flags pspec)
                then szt prec' - pz3 - szt n_right1 else 0);
         x = (if \<not> (pz3 + szt n_right1 < szt prec' \<and> \<not> (is_g \<and> FHASH \<notin> flags pspec))
                 \<and> pz3 + szt n_right1 > szt prec'
              then int pz3 + n_right1 - prec' else 0);
         n_right = n_right1 - x;
         want_dp = ((pz3 \<noteq> 0 \<or> pz4 \<noteq> 0) \<or> n_right > 0 \<or> FHASH \<in> flags pspec);
         length' = pfx_n + szt n_left + szt n_right1 + pz1 + pz3 + pz4 - szt x
                   + (if want_dp then 1 else 0);
         (ps1, ps2) = calc_space_padding pspec length';
         pz1' = (if FZERO \<in> flags pspec then pz1 + ps1 else pz1);
         ps1' = (if FZERO \<in> flags pspec then 0 else ps1)
     in case (if n_left \<noteq> 0 then mant_to_char mantissa sigfig (n_left - pz2) False
              else Some []) of
          None \<Rightarrow> None
        | Some e_left \<Rightarrow>
           (case (if n_right \<noteq> 0
                  then mant_to_char mantissa (sigfig - int (length e_left)) n_right True
                  else Some e_left) of
              None \<Rightarrow> None
            | Some e_right \<Rightarrow>
               Some [\<lparr>a_ps1 = ps1', a_pfx_s = Some pfx_s, a_pfx_n = pfx_n, a_pz = pz1',
                       a_e_s = e_left, a_e_n = length e_left, a_ps2 = 0\<rparr>,
                     \<lparr>a_ps1 = 0, a_pfx_s = None, a_pfx_n = 0, a_pz = szt pz2,
                       a_e_s = [], a_e_n = 0, a_ps2 = 0\<rparr>,
                     \<lparr>a_ps1 = 0, a_pfx_s = (if want_dp then Some ''.'' else None),
                       a_pfx_n = (if want_dp then 1 else 0), a_pz = pz3,
                       a_e_s = e_right, a_e_n = (if n_right \<noteq> 0 then length e_right else 0),
                       a_ps2 = (if pz4 = 0 then ps2 else 0)\<rparr>,
                     \<lparr>a_ps1 = 0, a_pfx_s = None, a_pfx_n = 0, a_pz = pz4,
                       a_e_s = [], a_e_n = 0, a_ps2 = ps2\<rparr>]))"

definition do_conv_f :: "'a T_FormatSpec_scheme \<Rightarrow> char \<Rightarrow> 'st consumer \<Rightarrow> 'st io
    \<Rightarrow> nat \<Rightarrow> nat \<Rightarrow> int \<Rightarrow> (int \<times> 'st io) option" where
  "do_conv_f pspec code cons io sign mantissa exponent =
    (case f_layout pspec code sign mantissa exponent of
       None \<Rightarrow> None
     | Some gs \<Rightarrow> gen_out_seq cons gs 0 io)"

text \<open>
  \<open>do_conv_fp\<close> of the full tier: \<open>long double\<close> is refused; infinities and NaNs go to
  \<open>do_conv_infnan\<close>; \<open>g\<close> and \<open>G\<close> take the \<open>e\<close> style when the exponent is below \<open>-4\<close> or
  not below \<open>pspec->prec\<close>, which at this point is still the parsed precision.
\<close>

definition do_conv_fp :: "'a T_FormatSpec_scheme \<Rightarrow> varg list \<Rightarrow> char \<Rightarrow> 'st consumer \<Rightarrow> 'st io
    \<Rightarrow> (int \<times> varg list \<times> 'st io) option" where
  "do_conv_fp pspec ap code cons io =
    (if qual pspec = CHR ''L'' then Some (EXBADFORMAT, ap, io)
     else
      (case pop_double ap of
         None \<Rightarrow> None
       | Some (dv, ap') \<Rightarrow>
          let (sign, mantissa, exponent) = radix_convert dv
          in (case (if DEC_FP_IS_NAN sign mantissa exponent \<or> DEC_FP_IS_INF sign mantissa exponent
                    then do_conv_infnan pspec code cons io sign mantissa exponent
                    else if code = CHR ''e'' \<or> code = CHR ''E''
                      then do_conv_e pspec code cons io sign mantissa exponent
                    else if (code = CHR ''g'' \<or> code = CHR ''G'')
                            \<and> (exponent < -4 \<or> exponent \<ge> prec pspec)
                      then do_conv_e pspec code cons io sign mantissa exponent
                    else do_conv_f pspec code cons io sign mantissa exponent) of
                None \<Rightarrow> None
              | Some (n, io') \<Rightarrow> Some (n, ap', io'))))"

section \<open>Conversion dispatch of the full tier\<close>

text \<open>
  \<open>do_conv\<close>. \<open>with_fp\<close> is \<open>CONFIG_WITH_FP_SUPPORT\<close>. A pointer is 8 bytes wide and an
  \<open>int\<close> 4, so \<open>%p\<close> becomes \<open>%#!16.16lX\<close>.
\<close>

definition do_conv :: "bool \<Rightarrow> 'a T_FormatSpec_scheme \<Rightarrow> varg list \<Rightarrow> char \<Rightarrow> 'st consumer \<Rightarrow> 'st io
    \<Rightarrow> (int \<times> varg list \<times> 'st io) option" where
  "do_conv with_fp pspec ap code cons io =
    (if code = CHR ''n'' then do_conv_n pspec ap io
     else if code = CHR ''%''
       then (case gen_out cons io 0 None 0 0 [code] 1 0 of
               None \<Rightarrow> None | Some (n, io') \<Rightarrow> Some (n, ap, io'))
     else if code = CHR ''c'' \<or> code = CHR ''C'' then do_conv_c pspec ap code cons io
     else if code = CHR ''s'' then do_conv_s pspec ap code cons io
     else if with_fp \<and> (code = CHR ''e'' \<or> code = CHR ''E'' \<or> code = CHR ''f''
                          \<or> code = CHR ''F'' \<or> code = CHR ''g'' \<or> code = CHR ''G'')
       then do_conv_fp pspec ap code cons io
     else
      (let (code1, pspec1) =
             (if code = CHR ''p''
              then (CHR ''X'', pspec\<lparr>qual := CHR ''l'', flags := {FHASH, FBANG},
                                       width := 16, prec := 16\<rparr>)
              else (code, pspec));
           signed = (code1 = CHR ''d'' \<or> code1 = CHR ''i'' \<or> code1 = CHR ''I'');
           pspec2 = (if signed
                     then pspec1\<lparr>flags := insert F_IS_SIGNED (flags pspec1) - {FHASH}\<rparr>
                     else pspec1);
           base0 = (if signed
                    then (if (code1 = CHR ''i'' \<or> code1 = CHR ''I'') \<and> base pspec2 \<noteq> 0
                          then base pspec2 else 10)
                    else (0::nat));
           base1 = (if code1 = CHR ''x'' \<or> code1 = CHR ''X'' then 16 else base0);
           base2 = (if code1 = CHR ''u'' \<or> code1 = CHR ''U''
                    then (if base pspec2 \<noteq> 0 then base pspec2 else 10) else base1);
           base3 = (if code1 = CHR ''o'' then 8 else base2);
           base4 = (if code1 = CHR ''b'' then 2 else base3)
       in if base4 > 1 then do_conv_numeric pspec2 ap code1 cons io base4
          else Some (EXBADFORMAT, ap, io)))"

section \<open>Format-spec parser and scan loop of the full tier\<close>

text \<open>
  The template pointer is the list of the bytes from the pointer on; \<open>INC_VOID_PTR\<close> is
  \<open>tl\<close>. The parser stores a base between 0 and 359, so the field \<open>base\<close> is a natural
  number.
\<close>

definition flag_of :: "char \<Rightarrow> flag option" where
  "flag_of c =
    (if c = CHR '' '' then Some FSPACE
     else if c = CHR ''+'' then Some FPLUS
     else if c = CHR ''-'' then Some FMINUS
     else if c = CHR ''#'' then Some FHASH
     else if c = CHR ''0'' then Some FZERO
     else if c = CHR ''!'' then Some FBANG
     else if c = CHR ''^'' then Some FCARET
     else None)"

fun parse_flags :: "string \<Rightarrow> flag set \<Rightarrow> flag set \<times> string" where
  "parse_flags [] fl = (fl, [])"
| "parse_flags (c # p) fl =
     (if c \<noteq> NUL \<and> flag_of c \<noteq> None then parse_flags p (insert (the (flag_of c)) fl)
      else (fl, c # p))"

text \<open>
  The digit loops of width, precision and base:
  \<open>for ( v = 0; ( c = READ_CHAR ) && ISDIGIT( c ) && v < MAX; INC ) v = v * 10 + c - '0'\<close>.
\<close>

fun parse_num :: "nat \<Rightarrow> nat \<Rightarrow> string \<Rightarrow> nat \<times> string" where
  "parse_num maxv v [] = (v, [])"
| "parse_num maxv v (c # p) =
     (if c \<noteq> NUL \<and> ISDIGIT c \<and> v < maxv then parse_num maxv (v * 10 + digit_val c) p
      else (v, c # p))"

text \<open>
  Each step of the parser yields \<open>None\<close> where the behaviour is undefined, \<open>Some (Inl ())\<close>
  where \<open>format\<close> returns \<open>EXBADFORMAT\<close>, and \<open>Some (Inr x)\<close> to go on. A width argument
  of \<open>INT_MIN\<close> cannot be negated: that is undefined.
\<close>

definition parse_width :: "string \<Rightarrow> varg list \<Rightarrow> flag set
    \<Rightarrow> (unit + int \<times> flag set \<times> string \<times> varg list) option" where
  "parse_width p ap fl =
    (case (if rd p = CHR ''*''
           then (case pop_int ap of
                   None \<Rightarrow> None
                 | Some (w, ap') \<Rightarrow>
                     if sint w < 0
                     then (if sint w = - (2 ^ 31) then None
                           else Some (- sint w, insert FMINUS fl, tl p, ap'))
                     else Some (sint w, fl, tl p, ap'))
           else (let (v, p') = parse_num (nat MAXWIDTH) 0 p in Some (int v, fl, p', ap))) of
       None \<Rightarrow> None
     | Some (w, fl', p', ap') \<Rightarrow>
         if w > MAXWIDTH then Some (Inl ()) else Some (Inr (w, fl', p', ap')))"

definition parse_prec :: "string \<Rightarrow> varg list \<Rightarrow> (unit + int \<times> string \<times> varg list) option" where
  "parse_prec p ap =
    (if rd p \<noteq> CHR ''.'' then Some (Inr (-1, p, ap))
     else if rd (tl p) = CHR ''*''
       then (case pop_int ap of
               None \<Rightarrow> None
             | Some (w, ap') \<Rightarrow>
                 if sint w > MAXPREC then Some (Inl ())
                 else Some (Inr (sint w, tl (tl p), ap')))
     else (let (v, p') = parse_num (nat MAXPREC) 0 (tl p)
           in if int v > MAXPREC then Some (Inl ()) else Some (Inr (int v, p', ap))))"

definition parse_base :: "string \<Rightarrow> varg list \<Rightarrow> (unit + nat \<times> string \<times> varg list) option" where
  "parse_base p ap =
    (if rd p \<noteq> CHR '':'' then Some (Inr (0, p, ap))
     else if rd (tl p) = CHR ''*''
       then (case pop_int ap of
               None \<Rightarrow> None
             | Some (w, ap') \<Rightarrow>
                 if sint w < 0 then Some (Inr (0, tl (tl p), ap'))
                 else if sint w > int MAXBASE then Some (Inl ())
                 else Some (Inr (nat (sint w), tl (tl p), ap')))
     else (let (v, p') = parse_num MAXBASE 0 (tl p)
           in if v > MAXBASE then Some (Inl ()) else Some (Inr (v, p', ap))))"

text \<open>
  The grouping specification runs from after \<open>[\<close> to the next \<open>]\<close>; the end of the
  template before \<open>]\<close> is an error.
\<close>

definition parse_grouping :: "string \<Rightarrow> (unit + string \<times> string) option" where
  "parse_grouping p =
    (if rd p = CHR ''[''
     then (let g = takeWhile (\<lambda>c. c \<noteq> NUL \<and> c \<noteq> CHR '']'') (tl p);
               p' = dropWhile (\<lambda>c. c \<noteq> NUL \<and> c \<noteq> CHR '']'') (tl p)
           in if rd p' = NUL then Some (Inl ()) else Some (Inr (g, tl p')))
     else Some (Inr ([], p)))"

definition parse_qual :: "string \<Rightarrow> char \<times> string" where
  "parse_qual p =
    (let c = rd p;
         (q, p1) = (if c \<noteq> NUL \<and> c \<in> set ''hljztL'' then (c, tl p) else (NUL, p))
     in if q \<noteq> NUL \<and> rd p1 \<noteq> NUL \<and> rd p1 = q then (DOUBLE_QUAL q, tl p1) else (q, p1))"

text \<open>
  \<open>parse_spec\<close> runs from after the \<open>%\<close> to the conversion letter (or the terminator):
  flags, width, precision, base, grouping and length qualifier.
\<close>

definition parse_spec :: "nat \<Rightarrow> string \<Rightarrow> varg list
    \<Rightarrow> (unit + T_FormatSpec \<times> string \<times> varg list) option" where
  "parse_spec nc p0 ap0 =
    (let (fl0, p1) = parse_flags p0 {} in
     case parse_width p1 ap0 fl0 of
       None \<Rightarrow> None
     | Some (Inl _) \<Rightarrow> Some (Inl ())
     | Some (Inr (w, fl1, p2, ap1)) \<Rightarrow>
        (case parse_prec p2 ap1 of
           None \<Rightarrow> None
         | Some (Inl _) \<Rightarrow> Some (Inl ())
         | Some (Inr (pr, p3, ap2)) \<Rightarrow>
            (case parse_base p3 ap2 of
               None \<Rightarrow> None
             | Some (Inl _) \<Rightarrow> Some (Inl ())
             | Some (Inr (b, p4, ap3)) \<Rightarrow>
                (case parse_grouping p4 of
                   None \<Rightarrow> None
                 | Some (Inl _) \<Rightarrow> Some (Inl ())
                 | Some (Inr (g, p5)) \<Rightarrow>
                    (let (q, p6) = parse_qual p5
                     in Some (Inr (\<lparr>nChars = nc, flags = fl1, width = w, prec = pr, base = b,
                                     qual = q, repchar = NUL, grouping = g\<rparr>, p6, ap3)))))))"

text \<open>
  The scan loop of \<open>format\<close>. \<open>nc\<close> is \<open>fspec.nChars\<close>, an \<open>unsigned int\<close>; the length
  \<open>n\<close> of a literal run is an \<open>unsigned int\<close> too. The result is the returned \<open>int\<close>, the
  rest of the argument list and the state of the sink. A continuation reads the new
  template through the pointer it takes from the argument list: a null pointer there
  is undefined.
\<close>

function format_loop :: "bool \<Rightarrow> 'st consumer \<Rightarrow> nat \<Rightarrow> string \<Rightarrow> varg list \<Rightarrow> 'st io
    \<Rightarrow> (int \<times> varg list \<times> 'st io) option" where
  "format_loop with_fp cons nc ptr ap io =
    (if rd ptr = NUL then Some (i32 (int nc), ap, io)
     else
      (let s = dropWhile (\<lambda>c. c \<noteq> NUL \<and> c \<noteq> CHR ''%'') ptr;
           n = u32 (length ptr - length s)
       in case (if n > 0 then emit ptr n cons io else Some (0, io)) of
            None \<Rightarrow> None
          | Some (r, io1) \<Rightarrow>
             if r < 0 then Some (EXBADFORMAT, ap, io1)
             else
              (let nc1 = (if n > 0 then u32 (nc + n) else nc)
               in if rd s = NUL then Some (i32 (int nc1), ap, io1)
                  else
                   (case parse_spec nc1 (tl s) ap of
                      None \<Rightarrow> None
                    | Some (Inl _) \<Rightarrow> Some (EXBADFORMAT, ap, io1)
                    | Some (Inr (fspec, p, ap1)) \<Rightarrow>
                       if rd p = NUL
                       then (case pop_str ap1 of
                               None \<Rightarrow> None
                             | Some (None, ap2) \<Rightarrow> None
                             | Some (Some t, ap2) \<Rightarrow> format_loop with_fp cons nc1 t ap2 io1)
                       else
                        (let convspec = rd p
                         in if convspec = CHR ''C'' \<and> rd (tl p) = NUL
                            then Some (EXBADFORMAT, ap1, io1)
                            else
                             (let p' = (if convspec = CHR ''C'' then tl p else p);
                                  fspec' = (if convspec = CHR ''C''
                                            then fspec\<lparr>repchar := rd (tl p)\<rparr> else fspec)
                              in case do_conv with_fp fspec' ap1 convspec cons io1 of
                                   None \<Rightarrow> None
                                 | Some (nn, ap2, io2) \<Rightarrow>
                                    if nn < 0 then Some (EXBADFORMAT, ap2, io2)
                                    else format_loop with_fp cons
                                           (u32 (nc1 + nat (nn mod 2 ^ 32))) (tl p') ap2 io2))))))"
  by pat_completeness auto

text \<open>
  Termination of the scan loop: no step lengthens the template or the argument list,
  a conversion shortens the template and a continuation the argument list.
\<close>

lemma rd_Nil [simp]: "rd [] = NUL"
  by (simp add: rd_def)

lemma rd_Cons [simp]: "rd (c # p) = c"
  by (simp add: rd_def)

lemma rd_not_NUL_D: "rd p \<noteq> NUL \<Longrightarrow> p \<noteq> []"
  by (cases p) simp_all

lemma pop_int_length: "pop_int ap = Some (w, ap') \<Longrightarrow> length ap' < length ap"
  by (cases ap rule: pop_int.cases) auto

lemma pop_long_length: "pop_long ap = Some (w, ap') \<Longrightarrow> length ap' < length ap"
  by (cases ap rule: pop_long.cases) auto

lemma pop_double_length: "pop_double ap = Some (w, ap') \<Longrightarrow> length ap' < length ap"
  by (cases ap rule: pop_double.cases) auto

lemma pop_str_length: "pop_str ap = Some (w, ap') \<Longrightarrow> length ap' < length ap"
  by (cases ap rule: pop_str.cases) auto

lemma pop_ptr_length: "pop_ptr ap = Some (w, ap') \<Longrightarrow> length ap' < length ap"
  by (cases ap rule: pop_ptr.cases) auto

lemma parse_flags_length: "parse_flags p fl = (fl', p') \<Longrightarrow> length p' \<le> length p"
  by (induction p fl rule: parse_flags.induct) (auto split: if_splits)

lemma parse_num_length: "parse_num maxv v p = (v', p') \<Longrightarrow> length p' \<le> length p"
  by (induction maxv v p rule: parse_num.induct) (auto split: if_splits)

lemma parse_width_length:
  "parse_width p ap fl = Some (Inr (w, fl', p', ap'))
    \<Longrightarrow> length p' \<le> length p \<and> length ap' \<le> length ap"
  by (auto simp: parse_width_def split: if_splits option.splits prod.splits
           dest!: pop_int_length parse_num_length)

lemma parse_prec_length:
  "parse_prec p ap = Some (Inr (w, p', ap'))
    \<Longrightarrow> length p' \<le> length p \<and> length ap' \<le> length ap"
  by (auto simp: parse_prec_def Let_def split: if_splits option.splits prod.splits
           dest!: pop_int_length parse_num_length)

lemma parse_base_length:
  "parse_base p ap = Some (Inr (w, p', ap'))
    \<Longrightarrow> length p' \<le> length p \<and> length ap' \<le> length ap"
  by (auto simp: parse_base_def Let_def split: if_splits option.splits prod.splits
           dest!: pop_int_length parse_num_length)

lemma parse_grouping_length:
  assumes "parse_grouping p = Some (Inr (g, p'))"
  shows "length p' \<le> length p"
proof (cases "rd p = CHR ''[''")
  case True
  define d where "d = dropWhile (\<lambda>c. c \<noteq> NUL \<and> c \<noteq> CHR '']'') (tl p)"
  have "length d \<le> length (tl p)" unfolding d_def by (rule length_dropWhile_le)
  then have "length (tl d) \<le> length p" by simp
  moreover from assms True have "p' = tl d"
    by (auto simp: parse_grouping_def Let_def d_def split: if_splits)
  ultimately show ?thesis by simp
next
  case False
  with assms show ?thesis by (simp add: parse_grouping_def)
qed

lemma parse_qual_length: "parse_qual p = (q, p') \<Longrightarrow> length p' \<le> length p"
  by (auto simp: parse_qual_def Let_def split: if_splits prod.splits)

lemma parse_spec_length:
  assumes "parse_spec nc p ap = Some (Inr (f, p', ap'))"
  shows "length p' \<le> length p \<and> length ap' \<le> length ap"
proof -
  obtain fl0 p1 where 1: "parse_flags p {} = (fl0, p1)" by force
  from assms 1 obtain w fl1 p2 ap1 where 2: "parse_width p1 ap fl0 = Some (Inr (w, fl1, p2, ap1))"
    by (auto simp: parse_spec_def split: option.splits sum.splits)
  from assms 1 2 obtain pr p3 ap2 where 3: "parse_prec p2 ap1 = Some (Inr (pr, p3, ap2))"
    by (auto simp: parse_spec_def split: option.splits sum.splits)
  from assms 1 2 3 obtain b p4 ap3 where 4: "parse_base p3 ap2 = Some (Inr (b, p4, ap3))"
    by (auto simp: parse_spec_def split: option.splits sum.splits)
  from assms 1 2 3 4 obtain g p5 where 5: "parse_grouping p4 = Some (Inr (g, p5))"
    by (auto simp: parse_spec_def split: option.splits sum.splits)
  obtain q p6 where 6: "parse_qual p5 = (q, p6)" by force
  from assms 1 2 3 4 5 6 have "p' = p6" "ap' = ap3"
    by (auto simp: parse_spec_def split: option.splits sum.splits)
  with parse_flags_length [OF 1] parse_width_length [OF 2] parse_prec_length [OF 3]
    parse_base_length [OF 4] parse_grouping_length [OF 5] parse_qual_length [OF 6]
  show ?thesis by simp
qed


lemma do_conv_n_length:
  "do_conv_n pspec ap io = Some (n, ap', io') \<Longrightarrow> length ap' \<le> length ap"
  by (auto simp: do_conv_n_def Let_def split: option.splits dest!: pop_ptr_length)

lemma do_conv_c_length:
  "do_conv_c pspec ap code cons io = Some (n, ap', io') \<Longrightarrow> length ap' \<le> length ap"
  by (auto simp: do_conv_c_def Let_def split: option.splits if_splits dest!: pop_int_length)

lemma do_conv_s_length:
  "do_conv_s pspec ap code cons io = Some (n, ap', io') \<Longrightarrow> length ap' \<le> length ap"
  by (auto simp: do_conv_s_def Let_def split: option.splits prod.splits dest!: pop_str_length)

lemma do_conv_fp_length:
  "do_conv_fp pspec ap code cons io = Some (n, ap', io') \<Longrightarrow> length ap' \<le> length ap"
  by (auto simp: do_conv_fp_def Let_def split: option.splits prod.splits if_splits
           dest!: pop_double_length)

lemma get_signed_length:
  "get_signed q ap = Some (v, ap') \<Longrightarrow> length ap' \<le> length ap"
  by (auto simp: get_signed_def Let_def split: option.splits if_splits
           dest!: pop_int_length pop_long_length)

lemma get_unsigned_length:
  "get_unsigned q ap = Some (v, ap') \<Longrightarrow> length ap' \<le> length ap"
  by (auto simp: get_unsigned_def Let_def split: option.splits if_splits
           dest!: pop_int_length pop_long_length)

lemma grp_next_break_length:
  "grp_next r ap = Some (Inl ap') \<Longrightarrow> length ap' \<le> length ap"
  by (auto simp: grp_next_def Let_def split: if_splits option.splits prod.splits sum.splits
           dest!: pop_int_length)

lemma grp_loop_length:
  "grp_loop r wid grp d_rem buf ins ap = Some (buf', ins', ap') \<Longrightarrow> length ap' \<le> length ap"
proof (induction r wid grp d_rem buf ins ap rule: grp_loop.induct)
  case (1 r wid grp d_rem buf ins ap)
  from "1.prems" have P:
    "(if d_rem = 0 then Some (buf, ins, ap)
      else
       (case (if r \<noteq> [] then grp_next r ap else Some (Inr (wid, grp, r, ap))) of
          None \<Rightarrow> None
        | Some (Inl ap') \<Rightarrow> Some (buf, ins, ap')
        | Some (Inr (wid', grp', r', ap')) \<Rightarrow>
            if wid' \<noteq> 0
            then (if d_rem \<le> szt (sint wid') then Some (buf, ins, ap')
                  else grp_loop r' wid' grp' (d_rem - szt (sint wid'))
                         (take (d_rem - szt (sint wid')) buf @ [grp']
                            @ drop (d_rem - szt (sint wid')) buf)
                         (ins + 1) ap')
            else if r' = [] then Some (buf, ins, ap')
            else grp_loop r' wid' grp' d_rem buf ins ap')) = Some (buf', ins', ap')"
    by (subst (asm) grp_loop.simps)
  show ?case
  proof (cases "d_rem = 0")
    case True
    with P show ?thesis by simp
  next
    case False
    note nz = this
    show ?thesis
    proof (cases "if r \<noteq> [] then grp_next r ap else Some (Inr (wid, grp, r, ap))")
      case None
      with P nz show ?thesis by simp
    next
      case (Some x)
      show ?thesis
      proof (cases x)
        case (Inl ap1)
        with Some P nz have "ap' = ap1" by simp
        moreover from Some Inl have "length ap1 \<le> length ap"
          by (auto split: if_splits dest: grp_next_break_length)
        ultimately show ?thesis by simp
      next
        case (Inr y)
        obtain wid' grp' r' ap1 where y: "y = (wid', grp', r', ap1)" by (cases y) auto
        from Some Inr y have le: "length ap1 \<le> length ap"
          by (auto split: if_splits dest: grp_next_shorter)
        show ?thesis
        proof (cases "wid' \<noteq> 0")
          case True
          show ?thesis
          proof (cases "d_rem \<le> szt (sint wid')")
            case True
            with \<open>wid' \<noteq> 0\<close> Some Inr y P nz have "ap' = ap1" by simp
            with le show ?thesis by simp
          next
            case False
            with \<open>wid' \<noteq> 0\<close> Some Inr y P nz
            have "grp_loop r' wid' grp' (d_rem - szt (sint wid'))
                        (take (d_rem - szt (sint wid')) buf @ [grp']
                           @ drop (d_rem - szt (sint wid')) buf)
                        (ins + 1) ap1 = Some (buf', ins', ap')" by simp
            from "1.IH"(1) [OF nz Some Inr y [symmetric] refl refl \<open>wid' \<noteq> 0\<close> False this] le
            show ?thesis by simp
          qed
        next
          case False
          show ?thesis
          proof (cases "r' = []")
            case True
            with False Some Inr y P nz have "ap' = ap1" by simp
            with le show ?thesis by simp
          next
            case rne: False
            with False Some Inr y P nz
            have "grp_loop r' wid' grp' d_rem buf ins ap1 = Some (buf', ins', ap')" by simp
            from "1.IH"(2) [OF nz Some Inr y [symmetric] refl refl False rne this] le
            show ?thesis by simp
          qed
        qed
      qed
    qed
  qed
qed


lemma numeric_layout_length:
  assumes "numeric_layout pspec ap code b = Some (g, ap')"
  shows "length ap' \<le> length ap"
proof -
  from assms obtain uv p0 pw0 fl1 ap1 where v: "numeric_value pspec ap = Some (uv, p0, pw0, fl1, ap1)"
    unfolding numeric_layout_def by (auto split: if_splits option.splits)
  then have le1: "length ap1 \<le> length ap"
    by (auto simp: numeric_value_def Let_def split: if_splits option.splits
             dest!: get_signed_length get_unsigned_length)
  from assms v obtain buf ins where
    "numeric_group pspec (numeric_digits code b uv) ap1 = Some (buf, ins, ap')"
    unfolding numeric_layout_def by (auto split: if_splits option.splits)
  then have "length ap' \<le> length ap1"
    by (auto simp: numeric_group_def split: if_splits dest: grp_loop_length)
  with le1 show ?thesis by simp
qed

lemma do_conv_numeric_length:
  "do_conv_numeric pspec ap code cons io b = Some (n, ap', io') \<Longrightarrow> length ap' \<le> length ap"
  by (auto simp: do_conv_numeric_def split: option.splits dest!: numeric_layout_length)

lemma do_conv_length:
  "do_conv with_fp pspec ap code cons io = Some (n, ap', io') \<Longrightarrow> length ap' \<le> length ap"
  unfolding do_conv_def
  by (auto simp: Let_def split: if_splits option.splits prod.splits
           dest!: do_conv_n_length do_conv_c_length do_conv_s_length do_conv_fp_length
                  do_conv_numeric_length)


lemma length_dropWhile_tl: "rd (dropWhile P p) \<noteq> NUL \<Longrightarrow> length (tl (dropWhile P p)) < length p"
proof -
  assume "rd (dropWhile P p) \<noteq> NUL"
  then have "dropWhile P p \<noteq> []" by (rule rd_not_NUL_D)
  then have "length (tl (dropWhile P p)) < length (dropWhile P p)" by simp
  also have "\<dots> \<le> length p" by (rule length_dropWhile_le)
  finally show ?thesis .
qed

termination format_loop
proof (relation "measures [\<lambda>(w, c, nc, ptr, ap, io). length ap, \<lambda>(w, c, nc, ptr, ap, io). length ptr]", goal_cases)
  case 1
  show ?case by simp
next
  case (2 with_fp cons nc ptr ap io s n x2 r io1 nc1 x2a x2b fspec y p ap1 x2c t ap2 x2d)
  then show ?case
    by (auto dest!: parse_spec_length pop_str_length)
next
  case (3 with_fp cons nc ptr ap io s n x2 r io1 nc1 x2a x2b fspec y p ap1 convspec p' fspec' x2c nn y2 ap2 io2)
  from 3 have a: "length ap2 \<le> length ap"
    by (auto dest!: parse_spec_length do_conv_length)
  from 3 have "length p \<le> length (tl s)" "rd s \<noteq> NUL"
    by (auto dest!: parse_spec_length)
  moreover have "length (tl p') < length p"
  proof -
    from 3 have pdef: "p' = (if convspec = CHR ''C'' then tl p else p)" by simp
    from 3 have np: "rd p \<noteq> NUL" by simp
    from 3 have nc: "\<not> (convspec = CHR ''C'' \<and> rd (tl p) = NUL)" by simp
    from np have "p \<noteq> []" by (rule rd_not_NUL_D)
    moreover have "tl p \<noteq> []" if "convspec = CHR ''C''"
      using nc that by (auto dest: rd_not_NUL_D)
    ultimately show ?thesis
      by (cases p; cases "tl p") (auto simp: pdef)
  qed
  moreover have "length (tl s) < length ptr"
  proof -
    from 3 have sdef: "s = dropWhile (\<lambda>c. c \<noteq> NUL \<and> c \<noteq> CHR ''%'') ptr"
      and rs: "rd s \<noteq> NUL" by simp_all
    show ?thesis using rs unfolding sdef by (rule length_dropWhile_tl)
  qed
  ultimately have "length (tl p') < length ptr" by simp
  with a show ?case by auto
qed

declare format_loop.simps [simp del]

text \<open>\<open>format\<close>: a null template is an error.\<close>

definition format :: "bool \<Rightarrow> 'st consumer \<Rightarrow> 'st option \<Rightarrow> string option \<Rightarrow> varg list
    \<Rightarrow> (int \<times> varg list \<times> 'st io) option" where
  "format with_fp cons arg fmt ap =
    (case fmt of
       None \<Rightarrow> Some (EXBADFORMAT, ap, \<lparr>sink_arg = arg, sent = [], stored = []\<rparr>)
     | Some t \<Rightarrow> format_loop with_fp cons 0 t ap \<lparr>sink_arg = arg, sent = [], stored = []\<rparr>)"

section \<open>A consumer for the examples\<close>

text \<open>
  \<open>bufwrite\<close> is the consumer of the test harness: it appends the bytes to a buffer and
  never fails. The opaque pointer is the buffer written so far.
\<close>

definition bufwrite :: "string consumer" where
  "bufwrite memptr buf = Some ((case memptr of None \<Rightarrow> [] | Some m \<Rightarrow> m) @ buf)"

text \<open>\<open>test_sprintf\<close>: the returned count and the buffer, for a template and its arguments.\<close>

definition test_sprintf :: "string \<Rightarrow> varg list \<Rightarrow> (int \<times> string) option" where
  "test_sprintf fmt ap =
    (case format True bufwrite None (Some fmt) ap of
       None \<Rightarrow> None
     | Some (n, ap', io) \<Rightarrow> Some (n, concat (sent io)))"

section \<open>The micro tier\<close>

text \<open>
  \<open>microformat\<close> sends every byte to the external function \<open>format_putchar\<close>, which
  returns \<open>-1\<close> on failure. The model of that function takes the state of the output
  device and the byte, and returns whether it succeeded and the new state. The state of
  a call holds the device and the bytes passed to \<open>format_putchar\<close> so far. Width and
  flags are \<open>uint8_t\<close>, the precision is \<open>int8_t\<close> and values are 16 bits wide.
\<close>

type_synonym 'st putchar = "'st \<Rightarrow> char \<Rightarrow> bool \<times> 'st"

record 'st mio =
  dev :: 'st
  put :: string

record M_FormatSpec =
  m_flags :: "flag set"
  m_width :: nat
  m_prec :: int

definition M_MAXWIDTH :: nat where "M_MAXWIDTH = 80"
definition M_MAXPREC :: int where "M_MAXPREC = 80"

text \<open>
  \<open>emit\<close> of the micro tier: \<open>n\<close> bytes from \<open>s\<close>, or \<open>n\<close> copies of \<open>c\<close> when \<open>s\<close> is
  \<open>NULL\<close>. It returns 1 on success. Reading \<open>s\<close> beyond its end is undefined.
\<close>

fun m_emit :: "string option \<Rightarrow> char \<Rightarrow> nat \<Rightarrow> 'st putchar \<Rightarrow> 'st mio \<Rightarrow> (int \<times> 'st mio) option" where
  "m_emit s c 0 putc io = Some (1, io)"
| "m_emit s c (Suc n) putc io =
    (case s of
       Some [] \<Rightarrow> None
     | _ \<Rightarrow>
       (let c' = (case s of None \<Rightarrow> c | Some t \<Rightarrow> hd t);
            s' = (case s of None \<Rightarrow> None | Some t \<Rightarrow> Some (tl t));
            (ok, d) = putc (dev io) c';
            io' = \<lparr>dev = d, put = put io @ [c']\<rparr>
        in if \<not> ok then Some (EXBADFORMAT, io') else m_emit s' c' n putc io'))"

definition m_on_ok :: "(int \<times> 'st mio) option \<Rightarrow> ('st mio \<Rightarrow> (int \<times> 'st mio) option)
    \<Rightarrow> (int \<times> 'st mio) option" where
  "m_on_ok r k = (case r of None \<Rightarrow> None
                  | Some (x, io) \<Rightarrow> if x < 0 then Some (EXBADFORMAT, io) else k io)"

definition m_gen_out :: "'st putchar \<Rightarrow> 'st mio \<Rightarrow> nat \<Rightarrow> char \<Rightarrow> nat \<Rightarrow> nat \<Rightarrow> string \<Rightarrow> nat \<Rightarrow> nat
    \<Rightarrow> (int \<times> 'st mio) option" where
  "m_gen_out putc io ps1 pfx_c pfx_n pz e_s e_n ps2 =
    m_on_ok (m_emit None (CHR '' '') ps1 putc io) (\<lambda>io1.
    m_on_ok (m_emit None pfx_c pfx_n putc io1) (\<lambda>io2.
    m_on_ok (m_emit None (CHR ''0'') pz putc io2) (\<lambda>io3.
    m_on_ok (m_emit (Some e_s) NUL e_n putc io3) (\<lambda>io4.
    m_on_ok (m_emit None (CHR '' '') ps2 putc io4) (\<lambda>io5.
    Some (i32 (int (ps1 + pfx_n + pz + e_n + ps2)), io5))))))"

definition m_calc_space_padding :: "M_FormatSpec \<Rightarrow> nat \<Rightarrow> nat \<times> nat" where
  "m_calc_space_padding pspec length' =
    (let width' = (if length' < m_width pspec then m_width pspec - length' else 0)
     in if FMINUS \<in> m_flags pspec then (0, width') else (width', 0))"

text \<open>
  \<open>do_conv_s\<close> of the micro tier: for a null pointer it emits a single \<open>?\<close> and returns
  what \<open>emit\<close> returns; flags, width and precision are not looked at.
\<close>

definition m_do_conv_s :: "M_FormatSpec \<Rightarrow> varg list \<Rightarrow> 'st putchar \<Rightarrow> 'st mio
    \<Rightarrow> (int \<times> varg list \<times> 'st mio) option" where
  "m_do_conv_s pspec ap putc io =
    (case pop_str ap of
       None \<Rightarrow> None
     | Some (None, ap') \<Rightarrow>
        (case m_emit None (CHR ''?'') 1 putc io of
           None \<Rightarrow> None | Some (n, io') \<Rightarrow> Some (n, ap', io'))
     | Some (Some s, ap') \<Rightarrow>
        let len0 = strlen' s;
            len = (if m_prec pspec \<ge> 0
                   then szt (if m_prec pspec < i32 (int len0) then m_prec pspec else i32 (int len0))
                   else len0);
            (ps1, ps2) = m_calc_space_padding pspec len
        in (case m_on_ok (m_emit None (CHR '' '') ps1 putc io) (\<lambda>io1.
                 m_on_ok (m_emit (Some s) NUL len putc io1) (\<lambda>io2.
                 m_on_ok (m_emit None (CHR '' '') ps2 putc io2) (\<lambda>io3.
                 Some (i32 (int (len + ps1 + ps2)), io3)))) of
              None \<Rightarrow> None
            | Some (n, io') \<Rightarrow> Some (n, ap', io')))"

text \<open>
  \<open>do_conv_numeric\<close> of the micro tier. The value is an \<open>int16_t\<close> or \<open>uint16_t\<close>; the
  digit table has 16 entries.
\<close>

function m_conv :: "nat \<Rightarrow> bool \<Rightarrow> nat \<Rightarrow> string \<Rightarrow> string" where
  "m_conv base' lower uv buf =
     (if uv \<noteq> 0 \<and> 1 < base'
      then (let cc = digits_tab ! (uv mod base');
                cc' = (if lower then or20 cc else cc)
            in m_conv base' lower (uv div base') (cc' # buf))
      else buf)"
  by pat_completeness auto
termination
  by (relation "measure (\<lambda>(b, l, uv, buf). uv)") auto

declare m_conv.simps [simp del]

definition m_numeric_layout :: "M_FormatSpec \<Rightarrow> varg list \<Rightarrow> char \<Rightarrow> nat
    \<Rightarrow> ((nat \<times> char \<times> nat \<times> nat \<times> string \<times> nat \<times> nat) \<times> varg list) option" where
  "m_numeric_layout pspec ap code base' =
    (if base' < 2 \<or> 16 < base' then None else
     case pop_int ap of
       None \<Rightarrow> None
     | Some (w, ap') \<Rightarrow>
        let v = signed_take_bit 15 (sint w);
            is_signed = (F_IS_SIGNED \<in> m_flags pspec);
            uv = (if is_signed then take_bit 16 (nat \<bar>v\<bar>) else take_bit 16 (unat w));
            pfx_c = (if is_signed
                     then (if v < 0 then CHR ''-''
                           else if FPLUS \<in> m_flags pspec then CHR ''+''
                           else if FSPACE \<in> m_flags pspec then CHR '' ''
                           else NUL)
                     else NUL);
            pfx_n = (if pfx_c \<noteq> NUL then 1 else 0);
            buf = m_conv base' (code = CHR ''x'') uv [];
            digitWidth = length buf;
            prec' = (if m_prec pspec < 0 then 1 else m_prec pspec);
            fl = (if m_prec pspec < 0 then m_flags pspec else m_flags pspec - {FZERO});
            numWidth = max digitWidth (szt prec');
            length' = pfx_n + numWidth;
            (ps1, ps2) = m_calc_space_padding (pspec\<lparr>m_flags := fl, m_prec := prec'\<rparr>) length';
            pz = numWidth - digitWidth
        in Some ((if FZERO \<in> fl then 0 else ps1, pfx_c, pfx_n,
                  if FZERO \<in> fl then pz + ps1 else pz, buf, digitWidth, ps2), ap'))"

definition m_do_conv_numeric :: "M_FormatSpec \<Rightarrow> varg list \<Rightarrow> char \<Rightarrow> nat \<Rightarrow> 'st putchar
    \<Rightarrow> 'st mio \<Rightarrow> (int \<times> varg list \<times> 'st mio) option" where
  "m_do_conv_numeric pspec ap code base' putc io =
    (case m_numeric_layout pspec ap code base' of
       None \<Rightarrow> None
     | Some ((ps1, pfx_c, pfx_n, pz, e_s, e_n, ps2), ap') \<Rightarrow>
        (case m_gen_out putc io ps1 pfx_c pfx_n pz e_s e_n ps2 of
           None \<Rightarrow> None
         | Some (n, io') \<Rightarrow> Some (n, ap', io')))"

definition m_do_conv :: "M_FormatSpec \<Rightarrow> varg list \<Rightarrow> char \<Rightarrow> 'st putchar \<Rightarrow> 'st mio
    \<Rightarrow> (int \<times> varg list \<times> 'st mio) option" where
  "m_do_conv pspec ap code putc io =
    (if code = CHR ''%''
     then (case m_emit None code 1 putc io of
             None \<Rightarrow> None | Some (n, io') \<Rightarrow> Some (n, ap, io'))
     else if code = CHR ''c''
       then (case pop_int ap of
               None \<Rightarrow> None
             | Some (w, ap') \<Rightarrow>
                (case m_emit None (char_of (unat w)) 1 putc io of
                   None \<Rightarrow> None | Some (n, io') \<Rightarrow> Some (n, ap', io')))
     else if code = CHR ''s'' then m_do_conv_s pspec ap putc io
     else
      (let (code1, pspec1) =
             (if code = CHR ''p'' then (CHR ''X'', pspec\<lparr>m_width := 4, m_prec := 4\<rparr>)
              else (code, pspec));
           pspec2 = (if code1 = CHR ''d''
                     then pspec1\<lparr>m_flags := insert F_IS_SIGNED (m_flags pspec1)\<rparr> else pspec1);
           base0 = (if code1 = CHR ''d'' then 10 else (0::nat));
           base1 = (if code1 = CHR ''u'' then 10 else base0);
           base2 = (if code1 = CHR ''x'' \<or> code1 = CHR ''X'' then 16 else base1);
           base3 = (if code1 = CHR ''b'' then 2 else base2)
       in if base3 > 1 then m_do_conv_numeric pspec2 ap code1 base3 putc io
          else Some (EXBADFORMAT, ap, io)))"

text \<open>
  The parser of \<open>microformat\<close>. The flags loop knows space, \<open>+\<close>, \<open>-\<close> and \<open>0\<close>. The digit
  loops go on while the value is at most \<open>MAX / 10\<close>, so the \<open>uint8_t\<close> width and the
  \<open>int8_t\<close> precision stay below 90 and do not wrap.
\<close>

definition m_flag_of :: "char \<Rightarrow> flag option" where
  "m_flag_of c =
    (if c = CHR '' '' then Some FSPACE
     else if c = CHR ''+'' then Some FPLUS
     else if c = CHR ''-'' then Some FMINUS
     else if c = CHR ''0'' then Some FZERO
     else None)"

fun m_parse_flags :: "string \<Rightarrow> flag set \<Rightarrow> flag set \<times> string" where
  "m_parse_flags [] fl = (fl, [])"
| "m_parse_flags (c # p) fl =
     (if m_flag_of c \<noteq> None then m_parse_flags p (insert (the (m_flag_of c)) fl)
      else (fl, c # p))"

fun m_parse_num :: "nat \<Rightarrow> nat \<Rightarrow> string \<Rightarrow> nat \<times> string" where
  "m_parse_num lim v [] = (v, [])"
| "m_parse_num lim v (c # p) =
     (if c \<noteq> NUL \<and> ISDIGIT c \<and> v \<le> lim then m_parse_num lim (v * 10 + digit_val c) p
      else (v, c # p))"

text \<open>
  The loop of \<open>microformat\<close>: \<open>fmt\<close> is the rest of the template, the second argument is \<open>nChars\<close>, an
  \<open>unsigned int\<close>. There is no continuation: the terminator in place of a conversion
  letter goes to \<open>do_conv\<close>, which refuses it.
\<close>

function microformat_loop :: "'st putchar \<Rightarrow> nat \<Rightarrow> string \<Rightarrow> varg list \<Rightarrow> 'st mio
    \<Rightarrow> (int \<times> varg list \<times> 'st mio) option" where
  "microformat_loop putc nc fmt ap io =
    (if rd fmt = NUL then Some (i32 (int nc), ap, io)
     else if rd fmt = CHR ''%''
     then
      (let (fl, p1) = m_parse_flags (tl fmt) {};
           (w, p2) = m_parse_num (M_MAXWIDTH div 10) 0 p1
       in if w > M_MAXWIDTH then Some (EXBADFORMAT, ap, io)
          else
           (let (pr, p3) = (if rd p2 = CHR ''.''
                            then (let (v, q) = m_parse_num (nat (M_MAXPREC div 10)) 0 (tl p2)
                                  in (int v, q))
                            else (-1, p2))
            in if rd p2 = CHR ''.'' \<and> pr > M_MAXPREC then Some (EXBADFORMAT, ap, io)
               else
                (case m_do_conv \<lparr>m_flags = fl, m_width = w, m_prec = pr\<rparr> ap (rd p3) putc io of
                   None \<Rightarrow> None
                 | Some (nn, ap', io') \<Rightarrow>
                    if nn < 0 then Some (EXBADFORMAT, ap', io')
                    else microformat_loop putc (u32 (nc + nat (nn mod 2 ^ 32))) (tl p3) ap' io')))
     else
      (let (ok, d) = putc (dev io) (rd fmt);
           io' = \<lparr>dev = d, put = put io @ [rd fmt]\<rparr>
       in if \<not> ok then Some (EXBADFORMAT, ap, io')
          else microformat_loop putc (u32 (nc + 1)) (tl fmt) ap io'))"
  by pat_completeness auto

lemma m_parse_flags_length: "m_parse_flags p fl = (fl', p') \<Longrightarrow> length p' \<le> length p"
  by (induction p fl rule: m_parse_flags.induct) (auto split: if_splits)

lemma m_parse_num_length: "m_parse_num lim v p = (v', p') \<Longrightarrow> length p' \<le> length p"
  by (induction lim v p rule: m_parse_num.induct) (auto split: if_splits)

lemma m_do_conv_NUL: "m_do_conv pspec ap NUL putc io = Some (EXBADFORMAT, ap, io)"
  by (simp add: m_do_conv_def NUL_def)

termination microformat_loop
proof (relation "measure (\<lambda>(putc, nc, fmt, ap, io). length fmt)", goal_cases)
  case 1
  show ?case by simp
next
  case (2 putc nc fmt ap io x fl p1 xa w p2 xb pr p3 x2 nn y ap' io')
  have "length p1 \<le> length (tl fmt)"
    using m_parse_flags_length [of "tl fmt" "{}" fl p1] 2 by simp
  moreover have "length p2 \<le> length p1"
    using m_parse_num_length [of "M_MAXWIDTH div 10" 0 p1 w p2] 2 by simp
  moreover have "length p3 \<le> length p2"
  proof (cases "rd p2 = CHR ''.''")
    case True
    obtain v q where vq: "m_parse_num (nat (M_MAXPREC div 10)) 0 (tl p2) = (v, q)"
      by (cases "m_parse_num (nat (M_MAXPREC div 10)) 0 (tl p2)")
    with True 2 have "p3 = q" by simp
    with m_parse_num_length [OF vq] show ?thesis by simp
  next
    case False
    with 2 show ?thesis by simp
  qed
  moreover from 2 have "rd p3 \<noteq> NUL"
    by (auto simp: m_do_conv_NUL EXBADFORMAT_def)
  then have "p3 \<noteq> []" by auto
  moreover from 2 have "fmt \<noteq> []" by (auto dest: rd_not_NUL_D)
  ultimately show ?case by (cases p3; cases fmt) auto
next
  case (3 putc nc fmt ap io x ok d io')
  then show ?case by (auto dest: rd_not_NUL_D)
qed

declare microformat_loop.simps [simp del]

definition microformat :: "'st putchar \<Rightarrow> 'st \<Rightarrow> string option \<Rightarrow> varg list
    \<Rightarrow> (int \<times> varg list \<times> 'st mio) option" where
  "microformat putc d fmt ap =
    (case fmt of
       None \<Rightarrow> Some (EXBADFORMAT, ap, \<lparr>dev = d, put = []\<rparr>)
     | Some t \<Rightarrow> microformat_loop putc 0 t ap \<lparr>dev = d, put = []\<rparr>)"

section \<open>The tiny tier\<close>

text \<open>
  The tiny tier has the consumer interface of the full tier, the flags space, \<open>+\<close>, \<open>-\<close>
  and \<open>0\<close>, a \<open>uint8_t\<close> width, an \<open>int8_t\<close> precision and 16-bit values. Its \<open>emit\<close>
  skips an empty run; its \<open>pad\<close> passes the padding character to the consumer one byte
  at a time and returns \<open>(int)n\<close>.
\<close>

record T_Spec =
  t_flags :: "flag set"
  t_width :: nat
  t_prec :: int

definition T_MAXWIDTH :: nat where "T_MAXWIDTH = 80"
definition T_MAXPREC :: int where "T_MAXPREC = 80"

definition t_emit :: "string \<Rightarrow> nat \<Rightarrow> 'st consumer \<Rightarrow> 'st io \<Rightarrow> (int \<times> 'st io) option" where
  "t_emit s n cons io = (if n > 0 then emit s n cons io else Some (0, io))"

fun t_pad_loop :: "char \<Rightarrow> nat \<Rightarrow> 'st consumer \<Rightarrow> 'st io \<Rightarrow> (int \<times> 'st io) option" where
  "t_pad_loop c 0 cons io = Some (0, io)"
| "t_pad_loop c (Suc n) cons io =
    (case emit [c] 1 cons io of
       None \<Rightarrow> None
     | Some (r, io') \<Rightarrow> if r < 0 then Some (EXBADFORMAT, io') else t_pad_loop c n cons io')"

definition t_pad :: "char \<Rightarrow> nat \<Rightarrow> 'st consumer \<Rightarrow> 'st io \<Rightarrow> (int \<times> 'st io) option" where
  "t_pad c n cons io =
    (case t_pad_loop c n cons io of
       None \<Rightarrow> None
     | Some (r, io') \<Rightarrow> if r < 0 then Some (EXBADFORMAT, io') else Some (i32 (int n), io'))"

definition t_gen_out :: "'st consumer \<Rightarrow> 'st io \<Rightarrow> nat \<Rightarrow> string option \<Rightarrow> nat \<Rightarrow> nat
    \<Rightarrow> string \<Rightarrow> nat \<Rightarrow> nat \<Rightarrow> (int \<times> 'st io) option" where
  "t_gen_out cons io ps1 pfx_s pfx_n pz e_s e_n ps2 =
    on_ok (t_pad (CHR '' '') ps1 cons io) (\<lambda>io1.
    on_ok (if pfx_s \<noteq> None then t_emit (the pfx_s) pfx_n cons io1 else Some (0, io1)) (\<lambda>io2.
    on_ok (t_pad (CHR ''0'') pz cons io2) (\<lambda>io3.
    on_ok (t_emit e_s e_n cons io3) (\<lambda>io4.
    on_ok (t_pad (CHR '' '') ps2 cons io4) (\<lambda>io5.
    Some (i32 (int (ps1 + pz + e_n + ps2 + (if pfx_s \<noteq> None then pfx_n else 0))), io5))))))"

definition t_calc_space_padding :: "T_Spec \<Rightarrow> nat \<Rightarrow> nat \<times> nat" where
  "t_calc_space_padding pspec length' =
    (let width' = (if length' < t_width pspec then t_width pspec - length' else 0)
     in if FMINUS \<in> t_flags pspec then (0, width') else (width', 0))"

definition t_do_conv_c :: "T_Spec \<Rightarrow> varg list \<Rightarrow> 'st consumer \<Rightarrow> 'st io
    \<Rightarrow> (int \<times> varg list \<times> 'st io) option" where
  "t_do_conv_c pspec ap cons io =
    (case pop_int ap of
       None \<Rightarrow> None
     | Some (w, ap') \<Rightarrow>
        let cc = char_of (unat w);
            rep = nat (max 1 (t_prec pspec))
        in (case t_pad cc rep cons io of
              None \<Rightarrow> None
            | Some (r, io') \<Rightarrow>
                if r < 0 then Some (EXBADFORMAT, ap', io') else Some (i32 (int rep), ap', io')))"

text \<open>\<open>do_conv_s\<close> of the tiny tier: a null pointer is replaced by \<open>"(null)"\<close>.\<close>

definition t_do_conv_s :: "T_Spec \<Rightarrow> varg list \<Rightarrow> 'st consumer \<Rightarrow> 'st io
    \<Rightarrow> (int \<times> varg list \<times> 'st io) option" where
  "t_do_conv_s pspec ap cons io =
    (case pop_str ap of
       None \<Rightarrow> None
     | Some (sp, ap') \<Rightarrow>
        let s = (case sp of None \<Rightarrow> ''(null)'' | Some t \<Rightarrow> t);
            len0 = strlen' s;
            len = (if t_prec pspec \<ge> 0
                   then szt (if t_prec pspec < i32 (int len0) then t_prec pspec else i32 (int len0))
                   else len0);
            (ps1, ps2) = t_calc_space_padding pspec len
        in (case t_gen_out cons io ps1 None 0 0 s len ps2 of
              None \<Rightarrow> None
            | Some (n, io') \<Rightarrow> Some (n, ap', io')))"

definition t_numeric_layout :: "T_Spec \<Rightarrow> varg list \<Rightarrow> char \<Rightarrow> nat
    \<Rightarrow> (gen_args \<times> varg list) option" where
  "t_numeric_layout pspec ap code base' =
    (if base' < 2 \<or> 16 < base' then None else
     case pop_int ap of
       None \<Rightarrow> None
     | Some (w, ap') \<Rightarrow>
        let v = signed_take_bit 15 (sint w);
            is_signed = (F_IS_SIGNED \<in> t_flags pspec);
            uv = (if is_signed then take_bit 16 (nat \<bar>v\<bar>) else take_bit 16 (unat w));
            prefix = (if is_signed
                      then (if v < 0 then CHR ''-''
                            else if FPLUS \<in> t_flags pspec then CHR ''+''
                            else if FSPACE \<in> t_flags pspec then CHR '' ''
                            else NUL)
                      else NUL);
            pfx_s = (if prefix \<noteq> NUL then Some [prefix] else None);
            pfx_n = (if prefix \<noteq> NUL then 1 else 0);
            buf = m_conv base' (code = CHR ''x'') uv [];
            digitWidth = length buf;
            prec' = (if t_prec pspec < 0 then 1 else t_prec pspec);
            fl = (if t_prec pspec < 0 then t_flags pspec else t_flags pspec - {FZERO});
            numWidth = max digitWidth (szt prec');
            length' = pfx_n + numWidth;
            (ps1, ps2) = t_calc_space_padding (pspec\<lparr>t_flags := fl, t_prec := prec'\<rparr>) length';
            pz = numWidth - digitWidth
        in Some (\<lparr>a_ps1 = (if FZERO \<in> fl then 0 else ps1), a_pfx_s = pfx_s, a_pfx_n = pfx_n,
                   a_pz = (if FZERO \<in> fl then pz + ps1 else pz), a_e_s = buf,
                   a_e_n = digitWidth, a_ps2 = ps2\<rparr>, ap'))"

definition t_do_conv_numeric :: "T_Spec \<Rightarrow> varg list \<Rightarrow> char \<Rightarrow> 'st consumer \<Rightarrow> 'st io \<Rightarrow> nat
    \<Rightarrow> (int \<times> varg list \<times> 'st io) option" where
  "t_do_conv_numeric pspec ap code cons io base' =
    (case t_numeric_layout pspec ap code base' of
       None \<Rightarrow> None
     | Some (g, ap') \<Rightarrow>
        (case t_gen_out cons io (a_ps1 g) (a_pfx_s g) (a_pfx_n g) (a_pz g) (a_e_s g) (a_e_n g)
                (a_ps2 g) of
           None \<Rightarrow> None
         | Some (n, io') \<Rightarrow> Some (n, ap', io')))"

definition t_do_conv :: "T_Spec \<Rightarrow> varg list \<Rightarrow> char \<Rightarrow> 'st consumer \<Rightarrow> 'st io
    \<Rightarrow> (int \<times> varg list \<times> 'st io) option" where
  "t_do_conv pspec ap code cons io =
    (if code = CHR ''%''
     then (case t_pad code 1 cons io of
             None \<Rightarrow> None | Some (n, io') \<Rightarrow> Some (n, ap, io'))
     else if code = CHR ''c'' then t_do_conv_c pspec ap cons io
     else if code = CHR ''s'' then t_do_conv_s pspec ap cons io
     else
      (let (code1, pspec1) =
             (if code = CHR ''p'' then (CHR ''X'', pspec\<lparr>t_width := 4, t_prec := 4\<rparr>)
              else (code, pspec));
           pspec2 = (if code1 = CHR ''d''
                     then pspec1\<lparr>t_flags := insert F_IS_SIGNED (t_flags pspec1)\<rparr> else pspec1);
           base0 = (if code1 = CHR ''d'' then 10 else (0::nat));
           base1 = (if code1 = CHR ''u'' then 10 else base0);
           base2 = (if code1 = CHR ''x'' \<or> code1 = CHR ''X'' then 16 else base1);
           base3 = (if code1 = CHR ''b'' then 2 else base2)
       in if base3 > 1 then t_do_conv_numeric pspec2 ap code1 cons io base3
          else Some (EXBADFORMAT, ap, io)))"

text \<open>
  The parser of the tiny tier. Its digit loops go on while the value is below the
  maximum, and store each new value in the 8-bit field.
\<close>

fun t_parse_flags :: "string \<Rightarrow> flag set \<Rightarrow> flag set \<times> string" where
  "t_parse_flags [] fl = (fl, [])"
| "t_parse_flags (c # p) fl =
     (if c \<noteq> NUL \<and> m_flag_of c \<noteq> None then t_parse_flags p (insert (the (m_flag_of c)) fl)
      else (fl, c # p))"

fun t_parse_width :: "nat \<Rightarrow> string \<Rightarrow> nat \<times> string" where
  "t_parse_width w [] = (w, [])"
| "t_parse_width w (c # p) =
     (if c \<noteq> NUL \<and> ISDIGIT c \<and> w < T_MAXWIDTH
      then t_parse_width ((w * 10 + digit_val c) mod 256) p
      else (w, c # p))"

fun t_parse_prec :: "int \<Rightarrow> string \<Rightarrow> int \<times> string" where
  "t_parse_prec pr [] = (pr, [])"
| "t_parse_prec pr (c # p) =
     (if c \<noteq> NUL \<and> ISDIGIT c \<and> pr < T_MAXPREC
      then t_parse_prec (signed_take_bit 7 (pr * 10 + int (digit_val c))) p
      else (pr, c # p))"

definition t_parse_spec :: "string \<Rightarrow> (unit + T_Spec \<times> string) option" where
  "t_parse_spec p0 =
    (let (fl, p1) = t_parse_flags p0 {};
         (w, p2) = t_parse_width 0 p1
     in if w > T_MAXWIDTH then Some (Inl ())
        else if rd p2 \<noteq> CHR ''.''
        then Some (Inr (\<lparr>t_flags = fl, t_width = w, t_prec = -1\<rparr>, p2))
        else (let (pr, p3) = t_parse_prec 0 (tl p2)
              in if pr > T_MAXPREC then Some (Inl ())
                 else Some (Inr (\<lparr>t_flags = fl, t_width = w, t_prec = pr\<rparr>, p3))))"

function tiny_format_loop :: "'st consumer \<Rightarrow> nat \<Rightarrow> string \<Rightarrow> varg list \<Rightarrow> 'st io
    \<Rightarrow> (int \<times> varg list \<times> 'st io) option" where
  "tiny_format_loop cons nc fmt ap io =
    (if rd fmt = NUL then Some (i32 (int nc), ap, io)
     else
      (let s = dropWhile (\<lambda>c. c \<noteq> NUL \<and> c \<noteq> CHR ''%'') fmt;
           n = length fmt - length s
       in case t_emit fmt n cons io of
            None \<Rightarrow> None
          | Some (r, io1) \<Rightarrow>
             if r < 0 then Some (EXBADFORMAT, ap, io1)
             else
              (let nc1 = u32 (nc + n)
               in if rd s = NUL then Some (i32 (int nc1), ap, io1)
                  else
                   (case t_parse_spec (tl s) of
                      None \<Rightarrow> None
                    | Some (Inl _) \<Rightarrow> Some (EXBADFORMAT, ap, io1)
                    | Some (Inr (fspec, p)) \<Rightarrow>
                       if rd p = NUL
                       then (case pop_str ap of
                               None \<Rightarrow> None
                             | Some (None, ap2) \<Rightarrow> None
                             | Some (Some t, ap2) \<Rightarrow> tiny_format_loop cons nc1 t ap2 io1)
                       else
                        (case t_do_conv fspec ap (rd p) cons io1 of
                           None \<Rightarrow> None
                         | Some (nn, ap2, io2) \<Rightarrow>
                            if nn < 0 then Some (EXBADFORMAT, ap2, io2)
                            else tiny_format_loop cons
                                   (u32 (nc1 + nat (nn mod 2 ^ 32))) (tl p) ap2 io2)))))"
  by pat_completeness auto

lemma t_parse_flags_length: "t_parse_flags p fl = (fl', p') \<Longrightarrow> length p' \<le> length p"
  by (induction p fl rule: t_parse_flags.induct) (auto split: if_splits)

lemma t_parse_width_length: "t_parse_width w p = (w', p') \<Longrightarrow> length p' \<le> length p"
  by (induction w p rule: t_parse_width.induct) (auto split: if_splits)

lemma t_parse_prec_length: "t_parse_prec pr p = (pr', p') \<Longrightarrow> length p' \<le> length p"
  by (induction pr p rule: t_parse_prec.induct) (auto split: if_splits)

lemma t_parse_spec_length:
  assumes "t_parse_spec p0 = Some (Inr (fspec, p))"
  shows "length p \<le> length p0"
proof -
  obtain fl p1 where a: "t_parse_flags p0 {} = (fl, p1)" by (cases "t_parse_flags p0 {}")
  obtain w p2 where b: "t_parse_width 0 p1 = (w, p2)" by (cases "t_parse_width 0 p1")
  obtain pr p3 where c: "t_parse_prec 0 (tl p2) = (pr, p3)" by (cases "t_parse_prec 0 (tl p2)")
  have "length p1 \<le> length p0" "length p2 \<le> length p1" "length p3 \<le> length (tl p2)"
    using a b c by (auto dest: t_parse_flags_length t_parse_width_length t_parse_prec_length)
  moreover have "p = p2 \<or> p = p3"
    using assms a b c by (auto simp: t_parse_spec_def split: if_splits)
  ultimately show ?thesis by auto
qed

lemma t_do_conv_c_length:
  "t_do_conv_c pspec ap cons io = Some (n, ap', io') \<Longrightarrow> length ap' \<le> length ap"
  by (auto simp: t_do_conv_c_def Let_def split: option.splits if_splits prod.splits
           dest!: pop_int_length)

lemma t_do_conv_s_length:
  "t_do_conv_s pspec ap cons io = Some (n, ap', io') \<Longrightarrow> length ap' \<le> length ap"
  by (auto simp: t_do_conv_s_def Let_def split: option.splits prod.splits
           dest!: pop_str_length)

lemma t_numeric_layout_length:
  "t_numeric_layout pspec ap code b = Some (g, ap') \<Longrightarrow> length ap' \<le> length ap"
  by (auto simp: t_numeric_layout_def Let_def split: option.splits if_splits prod.splits
           dest!: pop_int_length)

lemma t_do_conv_numeric_length:
  "t_do_conv_numeric pspec ap code cons io b = Some (n, ap', io') \<Longrightarrow> length ap' \<le> length ap"
  by (auto simp: t_do_conv_numeric_def split: option.splits dest!: t_numeric_layout_length)

lemma t_do_conv_length:
  assumes "t_do_conv pspec ap code cons io = Some (n, ap', io')"
  shows "length ap' \<le> length ap"
proof -
  consider (pc) "code = CHR ''%''" | (c) "code = CHR ''c''" | (s) "code = CHR ''s''"
    | (other) "code \<noteq> CHR ''%''" "code \<noteq> CHR ''c''" "code \<noteq> CHR ''s''" by blast
  then show ?thesis
  proof cases
    case pc
    with assms show ?thesis by (auto simp: t_do_conv_def split: option.splits)
  next
    case c
    with assms show ?thesis by (auto simp: t_do_conv_def dest: t_do_conv_c_length)
  next
    case s
    with assms show ?thesis by (auto simp: t_do_conv_def dest: t_do_conv_s_length)
  next
    case other
    with assms show ?thesis
      by (simp add: t_do_conv_def Let_def split: if_splits prod.splits)
         (blast dest: t_do_conv_numeric_length)+
  qed
qed

lemma tiny_step_length:
  assumes "t_parse_spec (tl s) = Some (Inr (y, p))" "rd s \<noteq> NUL" "rd p \<noteq> NUL"
    and "s = dropWhile P fmt"
  shows "length (tl p) < length fmt"
proof -
  have "length s \<le> length fmt" unfolding assms(4) by (rule length_dropWhile_le)
  moreover have "s \<noteq> []" "p \<noteq> []" using assms by (auto dest: rd_not_NUL_D)
  moreover have "length p \<le> length (tl s)" using assms(1) by (rule t_parse_spec_length)
  ultimately show ?thesis by (cases p; cases s) auto
qed

termination tiny_format_loop
proof (relation "measures [\<lambda>(cons, nc, fmt, ap, io). length ap,
                           \<lambda>(cons, nc, fmt, ap, io). length fmt]", goal_cases)
  case 1
  show ?case by simp
next
  case 2
  then show ?case by (auto dest: pop_str_length)
next
  case (3 cons nc fmt ap io s n x2 r io1 nc1 x2a b y p x2b nn yb ap2 io2)
  have "length (tl p) < length fmt"
    using tiny_step_length [of s y p "\<lambda>c. c \<noteq> NUL \<and> c \<noteq> CHR ''%''" fmt] 3 by simp
  moreover have "length ap2 \<le> length ap"
    using t_do_conv_length [of y ap "rd p" cons io1 nn ap2 io2] 3 by simp
  ultimately show ?case by auto
qed

declare tiny_format_loop.simps [simp del]

definition tiny_format :: "'st consumer \<Rightarrow> 'st option \<Rightarrow> string option \<Rightarrow> varg list
    \<Rightarrow> (int \<times> varg list \<times> 'st io) option" where
  "tiny_format cons arg fmt ap =
    (case fmt of
       None \<Rightarrow> Some (EXBADFORMAT, ap, \<lparr>sink_arg = arg, sent = [], stored = []\<rparr>)
     | Some t \<Rightarrow> tiny_format_loop cons 0 t ap \<lparr>sink_arg = arg, sent = [], stored = []\<rparr>)"

text \<open>
  For the small tiers: the same consumer under \<open>tiny_format\<close>, and for \<open>microformat\<close>
  a \<open>format_putchar\<close> that appends the byte to a buffer and never fails.
\<close>

definition test_tiny :: "string \<Rightarrow> varg list \<Rightarrow> (int \<times> string) option" where
  "test_tiny fmt ap =
    (case tiny_format bufwrite None (Some fmt) ap of
       None \<Rightarrow> None
     | Some (n, ap', io) \<Rightarrow> Some (n, concat (sent io)))"

definition bufputchar :: "string putchar" where
  "bufputchar d c = (True, d @ [c])"

definition test_micro :: "string \<Rightarrow> varg list \<Rightarrow> (int \<times> string) option" where
  "test_micro fmt ap =
    (case microformat bufputchar [] (Some fmt) ap of
       None \<Rightarrow> None
     | Some (n, ap', io) \<Rightarrow> Some (n, dev io))"

section \<open>Notions used to state the properties\<close>

text \<open>
  \<open>after_prec\<close> is the format specification the parser has built when, after the
  precision, there is neither a base, nor a grouping, nor a length qualifier.
  \<open>decimal_value\<close> is the number that a run of decimal digits denotes.
\<close>

definition after_prec :: "nat \<Rightarrow> flag set \<Rightarrow> int \<Rightarrow> int \<Rightarrow> T_FormatSpec" where
  "after_prec nc fl w pr = \<lparr>nChars = nc, flags = fl, width = w, prec = pr, base = 0,
     qual = NUL, repchar = NUL, grouping = []\<rparr>"







definition cong32 :: "int \<Rightarrow> int \<Rightarrow> bool" where
  "cong32 a b = (a mod 2 ^ 32 = b mod 2 ^ 32)"

section \<open>The later floating point unit: choice of style and rounding\<close>

text \<open>
  In the later sources the floating point converters are a unit of their own, and one
  function, \<open>do_conv_efg\<close>, lays out \<open>e\<close>, \<open>f\<close> and \<open>g\<close>. This section holds its function
  \<open>round_mantissa\<close> and the statements of \<open>do_conv_efg\<close> from its entry to its call of
  \<open>round_mantissa\<close>. The mantissa is an \<open>unsigned long long\<close>: its sums wrap at \<open>2^64\<close>.
  The exponent and the precision are \<open>int\<close>; \<open>c_rem\<close> is the remainder operator \<open>%\<close> of C,
  which truncates towards zero.
\<close>

definition COMP_EXP_LIMIT :: int where "COMP_EXP_LIMIT = 24"

definition c_rem :: "int \<Rightarrow> int \<Rightarrow> int" where
  "c_rem a b = sgn a * (\<bar>a\<bar> mod \<bar>b\<bar>)"

text \<open>
  \<open>round_shift\<close> is the value of the variable \<open>shift\<close> of \<open>round_mantissa\<close> when its loop
  starts, and \<open>addend_loop\<close> is that loop, \<open>while ( shift-- ) addend /= 10\<close>.
\<close>

definition round_shift :: "int \<Rightarrow> int \<Rightarrow> bool \<Rightarrow> bool \<Rightarrow> int" where
  "round_shift exponent prec' is_f compressed =
    (let e0 = exponent;
         e1 = (if compressed
               then (let r = c_rem e0 3;
                         r' = (if r < 0 then r + 3 else r)
                     in if is_f \<and> \<bar>exponent\<bar> > COMP_EXP_LIMIT
                        then r' + (\<bar>exponent\<bar> - COMP_EXP_LIMIT) else r')
               else e0);
         e2 = (if \<not> is_f then \<bar>if e1 < 0 then e1 + 1 else e1\<bar> else e1)
     in max (e2 + prec' + 1) 0)"

fun addend_loop :: "nat \<Rightarrow> nat \<Rightarrow> nat" where
  "addend_loop 0 addend = addend"
| "addend_loop (Suc shift) addend = addend_loop shift (addend div 10)"

text \<open>The result of \<open>round_mantissa\<close> is \<open>(*mantissa, *exponent)\<close>.\<close>

definition round_mantissa :: "nat \<Rightarrow> int \<Rightarrow> int \<Rightarrow> bool \<Rightarrow> bool \<Rightarrow> nat \<times> int" where
  "round_mantissa mantissa exponent prec' is_f compressed =
    (let addend = addend_loop (nat (round_shift exponent prec' is_f compressed)) (DEC_1P0 * 5);
         m1 = (mantissa + addend) mod 2 ^ 64
     in if m1 \<ge> DEC_1P0 * 10 then (((m1 + 5) mod 2 ^ 64) div 10, exponent + 1)
        else (m1, exponent))"

text \<open>
  \<open>do_conv_efg_head\<close> is \<open>do_conv_efg\<close> up to and including its call of
  \<open>round_mantissa\<close>. It yields the conversion code after \<open>g\<close> and \<open>G\<close> have been turned
  into one of the two styles, the format specification (\<open>FBANG\<close> cleared and precision 0
  taken as 1 for \<open>g\<close> and \<open>G\<close>, then the default precision 6 for a negative one),
  \<open>really_g\<close>, \<open>is_f\<close>, and the rounded mantissa and exponent. The sign prefix, worked out
  in between, does not enter.
\<close>

definition do_conv_efg_head :: "'a T_FormatSpec_scheme \<Rightarrow> char \<Rightarrow> nat \<Rightarrow> int
    \<Rightarrow> char \<times> 'a T_FormatSpec_scheme \<times> bool \<times> bool \<times> nat \<times> int" where
  "do_conv_efg_head pspec code mantissa exponent =
    (let really_g = (code = CHR ''g'' \<or> code = CHR ''G'');
         pspec1 = (if really_g
                   then pspec\<lparr>flags := flags pspec - {FBANG},
                               prec := (if prec pspec = 0 then 1 else prec pspec)\<rparr>
                   else pspec);
         code1 = (if really_g
                  then (if exponent < -4 \<or> exponent \<ge> prec pspec1
                        then (if code = CHR ''g'' then CHR ''e'' else CHR ''E'')
                        else (if code = CHR ''g'' then CHR ''f'' else CHR ''F''))
                  else code);
         is_f = (code1 = CHR ''f'' \<or> code1 = CHR ''F'');
         pspec2 = (if prec pspec1 < 0 then pspec1\<lparr>prec := 6\<rparr> else pspec1);
         (m, e) = round_mantissa mantissa exponent (prec pspec2) is_f (FBANG \<in> flags pspec2)
     in (code1, pspec2, really_g, is_f, m, e))"

text \<open>
  \<open>spec_round_shift\<close> is not taken from the code: it is the position of the rounding
  half-unit in the words of the specification, to compare \<open>round_shift\<close> with.
\<close>

definition spec_round_shift :: "bool \<Rightarrow> int \<Rightarrow> int \<Rightarrow> int" where
  "spec_round_shift is_f exponent prec' =
    (if is_f then exponent + prec' + 1 else \<bar>exponent\<bar> + prec' + 1)"

section \<open>The parser of the first format.c\<close>






section \<open>Claims about the integer converter\<close>

text \<open>
  C4 (amended). \<open>format\<close> with template \<open>%+06.1d\<close> and argument 1234 emits the six
  characters \<open>" +1234"\<close> and returns 6: the explicit precision cancels the ZERO flag, so
  the field is padded with a space, and the PLUS flag gives the sign. Without the PLUS
  flag (\<open>%06.1d\<close>) the output is \<open>"  1234"\<close>.
\<close>

theorem C4_plus_zero_precision:
  "test_sprintf ''%+06.1d'' [VInt 1234] = Some (6, '' +1234'')
   \<and> test_sprintf ''%06.1d'' [VInt 1234] = Some (6, ''  1234'')"
  by code_simp

text \<open>
  C4 as stated expects \<open>"  1234"\<close> for \<open>%+06.1d\<close>; the second character of the output is
  the plus sign.
\<close>

theorem C4_plus_counterexample:
  "test_sprintf ''%+06.1d'' [VInt 1234] \<noteq> Some (6, ''  1234'')"
  by code_simp

text \<open>
  The flags reach \<open>do_conv_numeric\<close> in two places: the sign handling (\<open>FPLUS\<close>,
  \<open>FSPACE\<close>, \<open>F_IS_SIGNED\<close>) and the layout. The next lemmas follow one flag, \<open>FZERO\<close>,
  and the precision through the phases.
\<close>

lemma numeric_value_zero_flag:
  "numeric_value (pspec\<lparr>flags := insert FZERO (flags pspec)\<rparr>) ap =
     map_option (\<lambda>(uv, p0, pw0, fl1, ap1). (uv, p0, pw0, insert FZERO fl1, ap1))
       (numeric_value (pspec\<lparr>flags := flags pspec - {FZERO}\<rparr>) ap)"
  by (auto simp: numeric_value_def Let_def split: option.splits)

lemma numeric_prefix_zero_flag:
  "numeric_prefix code uv p0 pw0 (insert FZERO fl1) = numeric_prefix code uv p0 pw0 fl1"
  by (simp add: numeric_prefix_def Let_def)

lemma numeric_args_zero_flag:
  assumes "0 \<le> prec pspec"
  shows "numeric_args (pspec\<lparr>flags := fa\<rparr>) (insert FZERO fl1) pfx buf ins
       = numeric_args (pspec\<lparr>flags := fb\<rparr>) fl1 pfx buf ins"
proof -
  have "insert FZERO fl1 - {FZERO} = fl1 - {FZERO}" by blast
  with assms show ?thesis by (simp add: numeric_args_def Let_def)
qed

lemma numeric_layout_zero_flag:
  assumes "0 \<le> prec pspec"
  shows "numeric_layout (pspec\<lparr>flags := insert FZERO (flags pspec)\<rparr>) ap code b
       = numeric_layout (pspec\<lparr>flags := flags pspec - {FZERO}\<rparr>) ap code b"
proof (cases "numeric_value (pspec\<lparr>flags := flags pspec - {FZERO}\<rparr>) ap")
  case None
  then show ?thesis
    by (simp add: numeric_layout_def numeric_value_zero_flag)
next
  case (Some t)
  obtain uv p0 pw0 fl1 ap1 where t: "t = (uv, p0, pw0, fl1, ap1)" by (cases t)
  show ?thesis
    using assms Some
    by (simp add: numeric_layout_def numeric_value_zero_flag t numeric_prefix_zero_flag
          numeric_group_def numeric_args_zero_flag split: option.splits)
qed

lemma numeric_digits_0: "numeric_digits code b 0 = []"
  by (simp add: numeric_digits_def conv_dec.simps conv_pow2.simps conv_base.simps)

lemma numeric_group_Nil: "numeric_group pspec [] ap = Some ([], 0, ap)"
  by (simp add: numeric_group_def grp_loop.simps)

lemma numeric_args_body:
  "a_e_s (numeric_args pspec fl1 pfx buf ins) = buf"
  "a_e_n (numeric_args pspec fl1 pfx buf ins) = length buf"
  "a_pfx_s (numeric_args pspec fl1 pfx buf ins) = fst pfx"
  "a_pfx_n (numeric_args pspec fl1 pfx buf ins) = snd pfx"
  by (simp_all add: numeric_args_def Let_def split: prod.splits)

lemma numeric_args_prec0:
  "prec pspec = 0 \<Longrightarrow> a_pz (numeric_args pspec fl1 pfx [] 0) = 0"
  by (simp add: numeric_args_def Let_def szt_def split: prod.splits)

lemma numeric_value_prec: "numeric_value (pspec\<lparr>prec := p\<rparr>) ap = numeric_value pspec ap"
  by (auto simp: numeric_value_def Let_def split: option.splits)

lemma numeric_group_prec: "numeric_group (pspec\<lparr>prec := p\<rparr>) buf ap = numeric_group pspec buf ap"
  by (simp add: numeric_group_def)

section \<open>Claims about precision in the integer converter\<close>

text \<open>
  C3. For every integer conversion an explicit precision (a precision that is not
  negative) disables the ZERO flag: \<open>do_conv_numeric\<close> does the same with and without
  the flag. With precision 0 and the value 0 there is no zero padding and the digit
  string passed to \<open>gen_out\<close> is empty.
\<close>

theorem C3_precision_disables_zero:
  "(0 \<le> prec pspec \<longrightarrow>
      do_conv_numeric (pspec\<lparr>flags := insert FZERO (flags pspec)\<rparr>) ap code cons io b
    = do_conv_numeric (pspec\<lparr>flags := flags pspec - {FZERO}\<rparr>) ap code cons io b)
   \<and> (prec pspec = 0 \<and> 2 \<le> b \<and> b \<le> 36
        \<and> numeric_value pspec ap = Some (0, p0, pw0, fl1, ap1) \<longrightarrow>
      (\<exists>g. numeric_layout pspec ap code b = Some (g, ap1)
          \<and> a_pz g = 0 \<and> a_e_s g = [] \<and> a_e_n g = 0))"
proof (intro conjI impI)
  assume "0 \<le> prec pspec"
  then show "do_conv_numeric (pspec\<lparr>flags := insert FZERO (flags pspec)\<rparr>) ap code cons io b
    = do_conv_numeric (pspec\<lparr>flags := flags pspec - {FZERO}\<rparr>) ap code cons io b"
    by (simp add: do_conv_numeric_def numeric_layout_zero_flag)
next
  assume a: "prec pspec = 0 \<and> 2 \<le> b \<and> b \<le> 36
        \<and> numeric_value pspec ap = Some (0, p0, pw0, fl1, ap1)"
  then have "numeric_layout pspec ap code b
      = Some (numeric_args pspec fl1 (numeric_prefix code 0 p0 pw0 fl1) [] 0, ap1)"
    by (simp add: numeric_layout_def numeric_digits_0 numeric_group_Nil)
  with a show "\<exists>g. numeric_layout pspec ap code b = Some (g, ap1)
          \<and> a_pz g = 0 \<and> a_e_s g = [] \<and> a_e_n g = 0"
    by (simp add: numeric_args_body numeric_args_prec0)
qed

theorem C3_precision_disables_zero_witness:
  "do_conv_numeric (\<lparr>nChars = 0, flags = {F_IS_SIGNED}, width = 5, prec = 0, base = 0,
        qual = CHR 0x00, repchar = CHR 0x00, grouping = []\<rparr>
        \<lparr>flags := insert FZERO {F_IS_SIGNED}\<rparr>) [VInt 0] (CHR ''d'') bufwrite
        \<lparr>sink_arg = None, sent = [], stored = []\<rparr> 10
   = do_conv_numeric (\<lparr>nChars = 0, flags = {F_IS_SIGNED}, width = 5, prec = 0, base = 0,
        qual = CHR 0x00, repchar = CHR 0x00, grouping = []\<rparr>
        \<lparr>flags := {F_IS_SIGNED} - {FZERO}\<rparr>) [VInt 0] (CHR ''d'') bufwrite
        \<lparr>sink_arg = None, sent = [], stored = []\<rparr> 10
   \<and> (\<exists>g. numeric_layout \<lparr>nChars = 0, flags = {F_IS_SIGNED}, width = 5, prec = 0, base = 0,
        qual = CHR 0x00, repchar = CHR 0x00, grouping = []\<rparr> [VInt 0] (CHR ''d'') 10
          = Some (g, [])
        \<and> a_pz g = 0 \<and> a_e_s g = [] \<and> a_e_n g = 0)"
proof -
  have v: "numeric_value \<lparr>nChars = 0, flags = {F_IS_SIGNED}, width = 5, prec = 0, base = 0,
        qual = CHR 0x00, repchar = CHR 0x00, grouping = []\<rparr> [VInt 0]
      = Some (0, CHR 0x00, 0, {F_IS_SIGNED}, [])"
    by code_simp
  show ?thesis
    using C3_precision_disables_zero [of "\<lparr>nChars = 0, flags = {F_IS_SIGNED}, width = 5,
        prec = 0, base = 0, qual = CHR 0x00, repchar = CHR 0x00, grouping = []\<rparr>"
        "[VInt 0]" "CHR ''d''" bufwrite "\<lparr>sink_arg = None, sent = [], stored = []\<rparr>" 10
        "CHR 0x00" 0 "{F_IS_SIGNED}" "[]"] v
    by simp
qed

text \<open>
  C8. The digit string with its separators does not depend on the precision: a
  conversion that differs only in the precision passes the same body (and the same
  prefix) to \<open>gen_out\<close>, and reads the same arguments. The precision only changes the
  number of zeros \<open>gen_out\<close> writes between the prefix and the body, and the space
  padding; separators are never put between those zeros.
\<close>

theorem C8_grouping_commutes_with_precision:
  assumes "numeric_layout (pspec\<lparr>prec := p1\<rparr>) ap code b = Some (g1, ap1)"
  shows "\<exists>g2. numeric_layout (pspec\<lparr>prec := p2\<rparr>) ap code b = Some (g2, ap1)
           \<and> a_e_s g2 = a_e_s g1 \<and> a_e_n g2 = a_e_n g1
           \<and> a_pfx_s g2 = a_pfx_s g1 \<and> a_pfx_n g2 = a_pfx_n g1"
  using assms
  by (auto simp: numeric_layout_def numeric_value_prec numeric_group_prec numeric_args_body
      split: if_splits option.splits)

theorem C8_grouping_commutes_with_precision_witness:
  "numeric_layout (\<lparr>nChars = 0, flags = {F_IS_SIGNED}, width = 0, prec = 0, base = 0,
       qual = CHR 0x00, repchar = CHR 0x00, grouping = ''_2''\<rparr>\<lparr>prec := -1\<rparr>)
       [VInt 1234] (CHR ''d'') 10
     = Some (\<lparr>a_ps1 = 0, a_pfx_s = None, a_pfx_n = 0, a_pz = 0, a_e_s = ''12_34'',
               a_e_n = 5, a_ps2 = 0\<rparr>, [])
   \<and> (\<exists>g2. numeric_layout (\<lparr>nChars = 0, flags = {F_IS_SIGNED}, width = 0, prec = 0,
       base = 0, qual = CHR 0x00, repchar = CHR 0x00, grouping = ''_2''\<rparr>\<lparr>prec := 6\<rparr>)
       [VInt 1234] (CHR ''d'') 10 = Some (g2, [])
       \<and> a_e_s g2 = ''12_34'' \<and> a_e_n g2 = 5 \<and> a_pfx_s g2 = None \<and> a_pfx_n g2 = 0)"
proof -
  have h: "numeric_layout (\<lparr>nChars = 0, flags = {F_IS_SIGNED}, width = 0, prec = 0, base = 0,
       qual = CHR 0x00, repchar = CHR 0x00, grouping = ''_2''\<rparr>\<lparr>prec := -1\<rparr>)
       [VInt 1234] (CHR ''d'') 10
     = Some (\<lparr>a_ps1 = 0, a_pfx_s = None, a_pfx_n = 0, a_pz = 0, a_e_s = ''12_34'',
               a_e_n = 5, a_ps2 = 0\<rparr>, [])"
    by code_simp
  from C8_grouping_commutes_with_precision [OF h, of 6] h show ?thesis
    by simp
qed

section \<open>Claims about the string conversion\<close>

text \<open>
  C9. On the full and the tiny tier \<open>%s\<close> with a null pointer does what it does with
  the string \<open>(null)\<close>, and a plain \<open>%s\<close> returns 6. On the micro tier it passes the
  single character \<open>?\<close> to \<open>format_putchar\<close> and returns 1 (or \<open>EXBADFORMAT\<close> when
  \<open>format_putchar\<close> fails), whatever the flags, the width and the precision.
\<close>

theorem C9_null_string:
  "do_conv_s pspec (VStr None # ap) code cons io
     = do_conv_s pspec (VStr (Some ''(null)'') # ap) code cons io
   \<and> test_sprintf ''%s'' [VStr None] = Some (6, ''(null)'')
   \<and> t_do_conv_s tspec (VStr None # ap) cons io
     = t_do_conv_s tspec (VStr (Some ''(null)'') # ap) cons io
   \<and> test_tiny ''%s'' [VStr None] = Some (6, ''(null)'')
   \<and> m_do_conv_s mspec (VStr None # ap) putc mio
     = Some (if fst (putc (dev mio) (CHR ''?'')) then 1 else EXBADFORMAT, ap,
             \<lparr>dev = snd (putc (dev mio) (CHR ''?'')), put = put mio @ ''?''\<rparr>)
   \<and> test_micro ''%s'' [VStr None] = Some (1, ''?'')
   \<and> test_micro ''[%-10.3s]'' [VStr None] = Some (3, ''[?]'')"
proof (intro conjI)
  show "do_conv_s pspec (VStr None # ap) code cons io
     = do_conv_s pspec (VStr (Some ''(null)'') # ap) code cons io"
    by (simp add: do_conv_s_def)
  show "test_sprintf ''%s'' [VStr None] = Some (6, ''(null)'')"
    by code_simp
  show "t_do_conv_s tspec (VStr None # ap) cons io
     = t_do_conv_s tspec (VStr (Some ''(null)'') # ap) cons io"
    by (simp add: t_do_conv_s_def)
  show "test_tiny ''%s'' [VStr None] = Some (6, ''(null)'')"
    by code_simp
  show "m_do_conv_s mspec (VStr None # ap) putc mio
     = Some (if fst (putc (dev mio) (CHR ''?'')) then 1 else EXBADFORMAT, ap,
             \<lparr>dev = snd (putc (dev mio) (CHR ''?'')), put = put mio @ ''?''\<rparr>)"
    by (simp add: m_do_conv_s_def numeral_eq_Suc Let_def split: prod.splits)
  show "test_micro ''%s'' [VStr None] = Some (1, ''?'')"
    by code_simp
  show "test_micro ''[%-10.3s]'' [VStr None] = Some (3, ''[?]'')"
    by code_simp
qed

section \<open>Passing a character through the parser\<close>














section \<open>Claims about the dispatcher\<close>



section \<open>The output of a conversion under an accepting consumer\<close>









section \<open>Width and precision above the maximum\<close>


















section \<open>Claims about the parser\<close>






section \<open>Counting the bytes passed to the consumer\<close>


lemma cong32_sym: "cong32 a b \<Longrightarrow> cong32 b a"
  by (simp add: cong32_def)

































section \<open>Claims about the emitted count\<close>




section \<open>Claims about the floating point converters\<close>





lemma addend_loop_div: "addend_loop n a = a div 10 ^ n"
proof (induction n arbitrary: a)
  case 0
  show ?case by simp
next
  case (Suc n)
  have "a div 10 div 10 ^ n = a div (10 * 10 ^ n)" by (simp add: div_mult2_eq)
  with Suc show ?case by simp
qed

lemma round_mantissa_nowrap:
  assumes "mantissa < 2 ^ 63"
  shows "round_mantissa mantissa exponent p is_f compressed
       = (let a = DEC_1P0 * 5 div 10 ^ nat (round_shift exponent p is_f compressed)
          in if DEC_1P0 * 10 \<le> mantissa + a then ((mantissa + a + 5) div 10, exponent + 1)
             else (mantissa + a, exponent))"
proof -
  define a where "a = DEC_1P0 * 5 div 10 ^ nat (round_shift exponent p is_f compressed)"
  have "a \<le> DEC_1P0 * 5" unfolding a_def by (rule div_le_dividend)
  then have a: "a \<le> 5000000000000000" by (simp add: DEC_1P0_def)
  from assms have m: "mantissa < 9223372036854775808" by simp
  from a m have "mantissa + a < 2 ^ 64" "mantissa + a + 5 < 2 ^ 64" by simp_all
  then have "(mantissa + a) mod 2 ^ 64 = mantissa + a"
    "(mantissa + a + 5) mod 2 ^ 64 = mantissa + a + 5" by simp_all
  then show ?thesis
    by (simp add: round_mantissa_def addend_loop_div a_def [symmetric] Let_def)
qed

text \<open>
  C6 (amended). \<open>round_mantissa\<close> adds \<open>5 * 10^15 / 10^shift\<close> to the decimal mantissa.
  Without the engineering flag, \<open>shift = MAX(exponent + precision + 1, 0)\<close> for the \<open>f\<close>
  style, and \<open>shift = |e| + precision + 1\<close> for the \<open>e\<close> style, where \<open>e\<close> is the exponent
  if that is not negative and the exponent plus one if it is: for a negative exponent
  the shift is one less than \<open>|exponent| + precision + 1\<close>. For \<open>g\<close> the style is the one
  \<open>do_conv_efg\<close> has chosen. If the sum reaches \<open>10^16\<close>, the mantissa becomes
  \<open>(mantissa + 5) / 10\<close> and the exponent is incremented.
\<close>

theorem C6_round_mantissa:
  "(is_f \<longrightarrow> round_shift exponent p is_f False = max (exponent + p + 1) 0)
   \<and> (\<not> is_f \<and> 0 \<le> p \<longrightarrow>
        round_shift exponent p is_f False
          = \<bar>if exponent < 0 then exponent + 1 else exponent\<bar> + p + 1)
   \<and> (\<not> is_f \<and> 0 \<le> p \<and> exponent < 0 \<longrightarrow>
        round_shift exponent p is_f False = spec_round_shift is_f exponent p - 1)
   \<and> (0 \<le> p \<and> 0 \<le> exponent \<longrightarrow>
        round_shift exponent p is_f False = spec_round_shift is_f exponent p)
   \<and> (mantissa < 2 ^ 63 \<longrightarrow>
        round_mantissa mantissa exponent p is_f compressed
          = (let a = DEC_1P0 * 5 div 10 ^ nat (round_shift exponent p is_f compressed)
             in if DEC_1P0 * 10 \<le> mantissa + a then ((mantissa + a + 5) div 10, exponent + 1)
                else (mantissa + a, exponent)))
   \<and> (do_conv_efg_head pspec code mantissa exponent = (code1, pspec2, really_g, isf, m', e') \<longrightarrow>
        (m', e') = round_mantissa mantissa exponent (prec pspec2)
                     (code1 = CHR ''f'' \<or> code1 = CHR ''F'') (FBANG \<in> flags pspec2))"
proof (intro conjI impI)
  show "round_shift exponent p is_f False = max (exponent + p + 1) 0" if "is_f"
    using that by (simp add: round_shift_def)
  show "round_shift exponent p is_f False
          = \<bar>if exponent < 0 then exponent + 1 else exponent\<bar> + p + 1" if "\<not> is_f \<and> 0 \<le> p"
    using that by (auto simp: round_shift_def)
  show "round_shift exponent p is_f False = spec_round_shift is_f exponent p - 1"
    if "\<not> is_f \<and> 0 \<le> p \<and> exponent < 0"
    using that by (auto simp: round_shift_def spec_round_shift_def)
  show "round_shift exponent p is_f False = spec_round_shift is_f exponent p"
    if "0 \<le> p \<and> 0 \<le> exponent"
    using that by (auto simp: round_shift_def spec_round_shift_def)
  show "round_mantissa mantissa exponent p is_f compressed
          = (let a = DEC_1P0 * 5 div 10 ^ nat (round_shift exponent p is_f compressed)
             in if DEC_1P0 * 10 \<le> mantissa + a then ((mantissa + a + 5) div 10, exponent + 1)
                else (mantissa + a, exponent))" if "mantissa < 2 ^ 63"
    using that by (rule round_mantissa_nowrap)
  show "(m', e') = round_mantissa mantissa exponent (prec pspec2)
                     (code1 = CHR ''f'' \<or> code1 = CHR ''F'') (FBANG \<in> flags pspec2)"
    if "do_conv_efg_head pspec code mantissa exponent = (code1, pspec2, really_g, isf, m', e')"
    using that by (auto simp: do_conv_efg_head_def Let_def split: prod.splits)
qed

theorem C6_round_mantissa_witness:
  "round_shift 2 6 True False = 9
   \<and> round_shift 2 6 False False = 9 \<and> spec_round_shift False 2 6 = 9
   \<and> round_shift (-3) 6 False False = 9 \<and> spec_round_shift False (-3) 6 - 1 = 9
   \<and> round_mantissa 9999999999999999 2 6 True False = (1000000000500000, 3)
   \<and> do_conv_efg_head (after_prec 0 {} 0 6) (CHR ''f'') 9999999999999999 2
     = (CHR ''f'', after_prec 0 {} 0 6, False, True, 1000000000500000, 3)"
proof -
  have h: "do_conv_efg_head (after_prec 0 {} 0 6) (CHR ''f'') 9999999999999999 2
     = (CHR ''f'', after_prec 0 {} 0 6, False, True, 1000000000500000, 3)"
    by code_simp
  have v: "round_shift 2 6 True False = 9" "round_shift 2 6 False False = 9"
    "spec_round_shift False 2 6 = 9" "round_shift (-3) 6 False False = 9"
    "spec_round_shift False (-3) 6 - 1 = 9"
    "round_mantissa 9999999999999999 2 6 True False = (1000000000500000, 3)"
    by code_simp+
  from C6_round_mantissa [of True 2 6 9999999999999999 False "after_prec 0 {} 0 6" "CHR ''f''"
      "CHR ''f''" "after_prec 0 {} 0 6" False True 1000000000500000 3]
    C6_round_mantissa [of False "-3" 6 9999999999999999 False "after_prec 0 {} 0 6" "CHR ''f''"
      "CHR ''f''" "after_prec 0 {} 0 6" False True 1000000000500000 3]
    h v
  show ?thesis by simp
qed

text \<open>
  C6 as stated gives \<open>shift = |exponent| + precision + 1\<close> for the \<open>e\<close> style. The value
  0.5 has the decimal mantissa \<open>5 * 10^15\<close> and the exponent -1; with precision 6 the
  stated shift is 8, the shift of \<open>round_mantissa\<close> is 7, and the mantissa grows by
  \<open>5 * 10^8\<close>, not by \<open>5 * 10^7\<close>.
\<close>

theorem C6_round_mantissa_counterexample:
  "radix_convert 0x3FE0000000000000 = (0, 5000000000000000, -1)
   \<and> spec_round_shift False (-1) 6 = 8
   \<and> round_shift (-1) 6 False False = 7
   \<and> round_mantissa 5000000000000000 (-1) 6 False False = (5000000500000000, -1)
   \<and> (5000000500000000 :: nat) \<noteq> 5000000000000000 + 5000000000000000 div 10 ^ 8"
  by code_simp

(*CLAIMS*)
section \<open>Claims about the padding calculator\<close>

text \<open>
  C7 (amended). In \<open>calc_space_padding\<close> of the current \<open>format.c\<close>, for a width from 0
  to \<open>INT_MAX\<close> and with the CARET flag, the space padding \<open>tot\<close> is split as
  \<open>left = (tot + (1 if MINUS is not set else 0)) / 2\<close> and \<open>right = tot - left\<close>. Hence
  an odd padding remainder is placed on the left when MINUS is not set (the text is
  biased to the right), and on the right when MINUS is set. In the earlier \<open>format.c\<close>
  \<open>do_conv_s\<close> centres with \<open>left = tot / 2\<close> and \<open>right = tot - left\<close> whatever MINUS
  is: there an odd remainder is on the right.
\<close>

theorem C7_caret_split:
  "(FCARET \<in> flags pspec \<and> 0 \<le> width pspec \<and> width pspec < 2 ^ 31
      \<and> calc_space_padding pspec len = (l, r) \<longrightarrow>
      l = ((if len < nat (width pspec) then nat (width pspec) - len else 0)
            + (if FMINUS \<in> flags pspec then 0 else 1)) div 2
      \<and> l + r = (if len < nat (width pspec) then nat (width pspec) - len else 0)
      \<and> (FMINUS \<notin> flags pspec \<longrightarrow> l = r \<or> l = r + 1)
      \<and> (FMINUS \<in> flags pspec \<longrightarrow> r = l \<or> r = l + 1))
   \<and> (FCARET \<in> fl \<and> do_conv_s_padding fl w len = (l', r') \<longrightarrow>
      l' = (if len < w then w - len else 0) div 2
      \<and> l' + r' = (if len < w then w - len else 0)
      \<and> (r' = l' \<or> r' = l' + 1))"
proof (rule conjI; rule impI)
  assume a: "FCARET \<in> flags pspec \<and> 0 \<le> width pspec \<and> width pspec < 2 ^ 31
      \<and> calc_space_padding pspec len = (l, r)"
  define d where "d = (if len < nat (width pspec) then nat (width pspec) - len else 0)"
  define b :: nat where "b = (if FMINUS \<in> flags pspec then 0 else 1)"
  from a have w: "szt (width pspec) = nat (width pspec)" "nat (width pspec) < 2 ^ 31"
    by (simp_all add: szt_def nat_less_iff)
  have dlt: "d < 2 ^ 31" using w(2) by (auto simp: d_def)
  have b: "b = 0 \<or> b = 1" by (simp add: b_def)
  from dlt b have "d + b < 2 ^ 64" by auto
  then have nowrap: "(d + b) mod 2 ^ 64 = d + b" by simp
  have l: "l = (d + b) div 2" and r: "r = d - l"
    using a nowrap
    by (auto simp: calc_space_padding_def Let_def w(1) d_def b_def split: if_splits)
  from l r b have "l + r = d" and "b = 1 \<longrightarrow> l = r \<or> l = r + 1"
    and "b = 0 \<longrightarrow> r = l \<or> r = l + 1"
    by presburger+
  with l show "l = ((if len < nat (width pspec) then nat (width pspec) - len else 0)
            + (if FMINUS \<in> flags pspec then 0 else 1)) div 2
      \<and> l + r = (if len < nat (width pspec) then nat (width pspec) - len else 0)
      \<and> (FMINUS \<notin> flags pspec \<longrightarrow> l = r \<or> l = r + 1)
      \<and> (FMINUS \<in> flags pspec \<longrightarrow> r = l \<or> r = l + 1)"
    unfolding d_def [symmetric] by (auto simp: b_def split: if_splits)
next
  assume a: "FCARET \<in> fl \<and> do_conv_s_padding fl w len = (l', r')"
  define d where "d = (if len < w then w - len else 0)"
  from a have l: "l' = d div 2" and r: "r' = d - l'"
    by (auto simp: do_conv_s_padding_def Let_def d_def split: if_splits)
  from l r have "l' + r' = d" and "r' = l' \<or> r' = l' + 1"
    by presburger+
  with l show "l' = (if len < w then w - len else 0) div 2
      \<and> l' + r' = (if len < w then w - len else 0)
      \<and> (r' = l' \<or> r' = l' + 1)"
    unfolding d_def [symmetric] by simp
qed

theorem C7_caret_split_witness:
  "calc_space_padding \<lparr>nChars = 0, flags = {FCARET}, width = 8, prec = -1, base = 0,
       qual = CHR 0x00, repchar = CHR 0x00, grouping = []\<rparr> 5 = (2, 1)
   \<and> (2::nat) = (3 + 1) div 2 \<and> (2::nat) = 1 + 1
   \<and> calc_space_padding \<lparr>nChars = 0, flags = {FCARET, FMINUS}, width = 8, prec = -1,
       base = 0, qual = CHR 0x00, repchar = CHR 0x00, grouping = []\<rparr> 5 = (1, 2)
   \<and> do_conv_s_padding {FCARET} 8 5 = (1, 2) \<and> (1::nat) = 3 div 2 \<and> (2::nat) = 1 + 1"
  using C7_caret_split [of "\<lparr>nChars = 0, flags = {FCARET}, width = 8, prec = -1, base = 0,
       qual = CHR 0x00, repchar = CHR 0x00, grouping = []\<rparr>" 5 2 1 "{FCARET}" 8 1 2]
    C7_caret_split [of "\<lparr>nChars = 0, flags = {FCARET, FMINUS}, width = 8, prec = -1,
       base = 0, qual = CHR 0x00, repchar = CHR 0x00, grouping = []\<rparr>" 5 1 2 "{FCARET}" 8 1 2]
  by (simp add: calc_space_padding_def do_conv_s_padding_def szt_def)

text \<open>
  C7 as stated gives the formula \<open>left = (tot + (1 if MINUS is not set else 0)) / 2\<close> and
  says that the odd remainder goes to the right unless MINUS is set. For a field of
  width 8 holding 5 characters with CARET alone the padding is 3. The current
  \<open>calc_space_padding\<close> follows the formula and puts 2 spaces on the left and 1 on the
  right: the remainder is on the left. The earlier \<open>do_conv_s\<close> puts the remainder on
  the right, with 1 space on the left, where the formula gives 2.
\<close>

theorem C7_remainder_counterexample:
  "calc_space_padding \<lparr>nChars = 0, flags = {FCARET}, width = 8, prec = -1, base = 0,
       qual = CHR 0x00, repchar = CHR 0x00, grouping = []\<rparr> 5 = (2, 1)
   \<and> \<not> (fst (calc_space_padding \<lparr>nChars = 0, flags = {FCARET}, width = 8, prec = -1,
       base = 0, qual = CHR 0x00, repchar = CHR 0x00, grouping = []\<rparr> 5)
       < snd (calc_space_padding \<lparr>nChars = 0, flags = {FCARET}, width = 8, prec = -1,
       base = 0, qual = CHR 0x00, repchar = CHR 0x00, grouping = []\<rparr> 5))
   \<and> do_conv_s_padding {FCARET} 8 5 = (1, 2)
   \<and> fst (do_conv_s_padding {FCARET} 8 5) \<noteq> (3 + 1) div 2"
  by (simp add: calc_space_padding_def do_conv_s_padding_def szt_def)

end
